theory Spec2Isabelle
  imports
    Complex_Main
    "HOL-Library.Word"
    "HOL-Library.Char_ord"
    "HOL-Library.List_Lexorder"
    "HOL-Library.Multiset"
begin

unbundle bit_operations_syntax

section \<open>Python strings\<close>

text \<open>
  A Python \<open>str\<close> is modelled as a \<open>string\<close> whose characters stand for the Unicode
  code points 0..255 of the same number. The primitives below follow CPython on that
  range: \<open>str.isspace\<close> (also what \<open>\s\<close>, \<open>str.strip()\<close> and \<open>str.split()\<close> use),
  \<open>str.lower\<close>, and the UTF-8 encoding of \<open>str.encode()\<close>.
\<close>

definition is_space :: "char \<Rightarrow> bool" where
  "is_space c \<longleftrightarrow>
     c \<in> set [CHR 0x09, CHR 0x0A, CHR 0x0B, CHR 0x0C, CHR 0x0D, CHR 0x1C, CHR 0x1D,
              CHR 0x1E, CHR 0x1F, CHR 0x20, CHR 0x85, CHR 0xA0]"

definition is_digit :: "char \<Rightarrow> bool" where
  "is_digit c \<longleftrightarrow> c \<in> set ''0123456789''"

definition lower_char :: "char \<Rightarrow> char" where
  "lower_char c =
     (let n = (of_char c :: nat)
      in if (65 \<le> n \<and> n \<le> 90) \<or> (192 \<le> n \<and> n \<le> 222 \<and> n \<noteq> 215)
         then char_of (n + 32) else c)"

definition lower :: "string \<Rightarrow> string" where
  "lower s = map lower_char s"

definition lstrip :: "string \<Rightarrow> string" where
  "lstrip s = dropWhile is_space s"

definition rstrip :: "string \<Rightarrow> string" where
  "rstrip s = rev (dropWhile is_space (rev s))"

definition strip :: "string \<Rightarrow> string" where
  "strip s = rstrip (lstrip s)"

text \<open>\<open>s.rstrip(",")\<close>: every trailing comma is removed.\<close>

definition rstrip_comma :: "string \<Rightarrow> string" where
  "rstrip_comma s = rev (dropWhile (\<lambda>c. c = CHR '','') (rev s))"

text \<open>\<open>sep.join(xs)\<close>.\<close>

fun join :: "string \<Rightarrow> string list \<Rightarrow> string" where
  "join sep [] = []"
| "join sep [x] = x"
| "join sep (x # y # ys) = x @ sep @ join sep (y # ys)"

text \<open>\<open>s.split(sep)\<close> for a one-character separator: always at least one piece.\<close>

fun cons_hd :: "string \<Rightarrow> string list \<Rightarrow> string list" where
  "cons_hd u [] = [u]"
| "cons_hd u (p # ps) = (u @ p) # ps"

fun split_on :: "char \<Rightarrow> string \<Rightarrow> string list" where
  "split_on sep [] = [[]]"
| "split_on sep (c # cs) =
     (if c = sep then [] # split_on sep cs else cons_hd [c] (split_on sep cs))"

text \<open>\<open>s.split()\<close>: the maximal runs of non-whitespace characters.\<close>

function split_ws :: "string \<Rightarrow> string list" where
  "split_ws s =
     (let t = dropWhile is_space s
      in if t = [] then []
         else takeWhile (\<lambda>c. \<not> is_space c) t # split_ws (dropWhile (\<lambda>c. \<not> is_space c) t))"
  by pat_completeness auto
termination
proof (relation "measure length")
  fix s t :: string
  assume t: "t = dropWhile is_space s" and ne: "t \<noteq> []"
  have "length (dropWhile (\<lambda>c. \<not> is_space c) t) < length t"
  proof (cases t)
    case Nil
    with ne show ?thesis by simp
  next
    case (Cons c cs)
    have "\<not> is_space (hd t)"
      using ne unfolding t by (rule hd_dropWhile)
    with Cons have "dropWhile (\<lambda>c. \<not> is_space c) t = dropWhile (\<lambda>c. \<not> is_space c) cs"
      by simp
    moreover have "length (dropWhile (\<lambda>c. \<not> is_space c) cs) \<le> length cs"
      by (rule length_dropWhile_le)
    ultimately show ?thesis using Cons by simp
  qed
  moreover have "length t \<le> length s"
    unfolding t by (rule length_dropWhile_le)
  ultimately show "(dropWhile (\<lambda>c. \<not> is_space c) t, s) \<in> measure length"
    by simp
qed simp

declare split_ws.simps [simp del]

text \<open>\<open>x in s\<close> on strings (substring test) and \<open>s.startswith(x)\<close>, \<open>s.endswith(x)\<close>.\<close>

fun startswith :: "string \<Rightarrow> string \<Rightarrow> bool" where
  "startswith s [] = True"
| "startswith [] (x # xs) = False"
| "startswith (c # cs) (x # xs) = (c = x \<and> startswith cs xs)"

definition endswith :: "string \<Rightarrow> string \<Rightarrow> bool" where
  "endswith s x = startswith (rev s) (rev x)"

fun contains :: "string \<Rightarrow> string \<Rightarrow> bool" where
  "contains [] x = (x = [])"
| "contains (c # cs) x = (startswith (c # cs) x \<or> contains cs x)"

text \<open>\<open>s.replace(old, new)\<close> for a non-empty \<open>old\<close> (every call of the program has one):
  the non-overlapping occurrences, leftmost first.\<close>

function replace :: "string \<Rightarrow> string \<Rightarrow> string \<Rightarrow> string" where
  "replace s old new =
     (if s = [] \<or> old = [] then s
      else if startswith s old then new @ replace (drop (length old) s) old new
      else hd s # replace (tl s) old new)"
  by pat_completeness auto
termination
  by (relation "measure (\<lambda>(s, old, new). length s)") (auto simp: Suc_le_eq)

declare replace.simps [simp del]

text \<open>\<open>s.encode()\<close>: UTF-8, one byte below 128 and two bytes from 128 to 255.\<close>

definition encode_char :: "char \<Rightarrow> int list" where
  "encode_char c =
     (let n = (of_char c :: int)
      in if n < 128 then [n] else [192 + n div 64, 128 + n mod 64])"

definition encode :: "string \<Rightarrow> int list" where
  "encode s = concat (map encode_char s)"

section \<open>The seeded coordinate hash\<close>

text \<open>
  \<open>xxhash.xxh32\<close> is the 32-bit xxHash (XXH32) of the xxhash library, which the program
  imports; it is written out here after the published algorithm, on bytes given as
  integers below 256. Hash values and coordinates are Python integers (\<open>int\<close>).
\<close>

type_synonym u32 = "32 word"

definition PRIME32_1 :: u32 where "PRIME32_1 = 2654435761"
definition PRIME32_2 :: u32 where "PRIME32_2 = 2246822519"
definition PRIME32_3 :: u32 where "PRIME32_3 = 3266489917"
definition PRIME32_4 :: u32 where "PRIME32_4 = 668265263"
definition PRIME32_5 :: u32 where "PRIME32_5 = 374761393"

definition rotl32 :: "u32 \<Rightarrow> nat \<Rightarrow> u32" where
  "rotl32 x r = push_bit r x OR drop_bit (32 - r) x"

definition xxh_round :: "u32 \<Rightarrow> u32 \<Rightarrow> u32" where
  "xxh_round acc inp = rotl32 (acc + inp * PRIME32_2) 13 * PRIME32_1"

text \<open>The little-endian 32-bit word made of the first four bytes.\<close>

definition read32 :: "int list \<Rightarrow> u32" where
  "read32 bs = word_of_int (bs ! 0 + 256 * bs ! 1 + 65536 * bs ! 2 + 16777216 * bs ! 3)"

function xxh_stripes :: "u32 \<times> u32 \<times> u32 \<times> u32 \<Rightarrow> int list \<Rightarrow> (u32 \<times> u32 \<times> u32 \<times> u32) \<times> int list" where
  "xxh_stripes (v1, v2, v3, v4) bs =
     (if length bs < 16 then ((v1, v2, v3, v4), bs)
      else xxh_stripes
             (xxh_round v1 (read32 bs), xxh_round v2 (read32 (drop 4 bs)),
              xxh_round v3 (read32 (drop 8 bs)), xxh_round v4 (read32 (drop 12 bs)))
             (drop 16 bs))"
  by pat_completeness auto
termination
  by (relation "measure (\<lambda>(v, bs). length bs)") auto

declare xxh_stripes.simps [simp del]

function xxh_words :: "u32 \<Rightarrow> int list \<Rightarrow> u32 \<times> int list" where
  "xxh_words h bs =
     (if length bs < 4 then (h, bs)
      else xxh_words (rotl32 (h + read32 bs * PRIME32_3) 17 * PRIME32_4) (drop 4 bs))"
  by pat_completeness auto
termination
  by (relation "measure (\<lambda>(h, bs). length bs)") auto

declare xxh_words.simps [simp del]

fun xxh_bytes :: "u32 \<Rightarrow> int list \<Rightarrow> u32" where
  "xxh_bytes h [] = h"
| "xxh_bytes h (b # bs) = xxh_bytes (rotl32 (h + word_of_int b * PRIME32_5) 11 * PRIME32_1) bs"

definition xxh_avalanche :: "u32 \<Rightarrow> u32" where
  "xxh_avalanche h0 =
     (let h1 = (h0 XOR drop_bit 15 h0) * PRIME32_2;
          h2 = (h1 XOR drop_bit 13 h1) * PRIME32_3
      in h2 XOR drop_bit 16 h2)"

definition xxh32 :: "u32 \<Rightarrow> int list \<Rightarrow> u32" where
  "xxh32 seed bs =
     (let (h, rest) =
            (if 16 \<le> length bs then
               (case xxh_stripes (seed + PRIME32_1 + PRIME32_2, seed + PRIME32_2, seed, seed - PRIME32_1) bs
                of ((v1, v2, v3, v4), rest) \<Rightarrow>
                    (rotl32 v1 1 + rotl32 v2 7 + rotl32 v3 12 + rotl32 v4 18, rest))
             else (seed + PRIME32_5, bs));
          (h', rest') = xxh_words (h + word_of_nat (length bs)) rest
      in xxh_avalanche (xxh_bytes h' rest'))"

text \<open>\<open>struct.pack('<I', n & 0xFFFFFFFF)\<close>.\<close>

definition pack_u32 :: "int \<Rightarrow> int list" where
  "pack_u32 n = [n mod 256, n div 256 mod 256, n div 65536 mod 256, n div 16777216 mod 256]"

text \<open>The fingerprint \<open>xxhash.xxh32(input_prompt.encode()).intdigest()\<close>.\<close>

definition input_fingerprint :: "string \<Rightarrow> int" where
  "input_fingerprint input_prompt = uint (xxh32 0 (encode input_prompt))"

definition enhancement_hash :: "int \<Rightarrow> int \<Rightarrow> int \<Rightarrow> int" where
  "enhancement_hash seed input_hash coord =
     uint (xxh32 (word_of_int seed) (pack_u32 input_hash @ pack_u32 coord))"

datatype error = ZeroDivisionError | KeyError

definition hash_to_index :: "int \<Rightarrow> nat \<Rightarrow> error + nat" where
  "hash_to_index h pool_size =
     (if pool_size = 0 then Inl ZeroDivisionError else Inr (nat (h mod int pool_size)))"


section \<open>Patterns\<close>

text \<open>
  The patterns of a profile are regular expressions handed to \<open>re.search\<close>. They are
  modelled as syntax trees of the constructs the built-in profiles use: literal text,
  \<open>\s+\<close>, \<open>\d+\<close>, \<open>^\<close>, \<open>$\<close>, concatenation, alternation and \<open>?\<close>. A matcher
  state is the number of characters consumed so far and the rest of the subject;
  \<open>rx_ends\<close> lists the states a match of the pattern can end in.
\<close>

datatype rx = Lit string | Spaces | Digits | Bol | Eol | Cat rx rx | Alt rx rx | Opt rx

fun rx_ends :: "rx \<Rightarrow> nat \<times> string \<Rightarrow> (nat \<times> string) list" where
  "rx_ends (Lit l) (n, s) = (if startswith s l then [(n + length l, drop (length l) s)] else [])"
| "rx_ends Spaces (n, s) =
     map (\<lambda>k. (n + k, drop k s)) [1..<Suc (length (takeWhile is_space s))]"
| "rx_ends Digits (n, s) =
     map (\<lambda>k. (n + k, drop k s)) [1..<Suc (length (takeWhile is_digit s))]"
| "rx_ends Bol (n, s) = (if n = 0 then [(n, s)] else [])"
| "rx_ends Eol (n, s) = (if s = [] \<or> s = [CHR 0x0A] then [(n, s)] else [])"
| "rx_ends (Cat a b) st = concat (map (rx_ends b) (rx_ends a st))"
| "rx_ends (Alt a b) st = rx_ends a st @ rx_ends b st"
| "rx_ends (Opt a) st = rx_ends a st @ [st]"

text \<open>\<open>re.search(pattern, s)\<close> as a truth value: a match starts somewhere in \<open>s\<close>.\<close>

definition re_search :: "rx \<Rightarrow> string \<Rightarrow> bool" where
  "re_search r s = list_ex (\<lambda>k. rx_ends r (k, drop k s) \<noteq> []) [0..<Suc (length s)]"

section \<open>Profiles\<close>

text \<open>
  Dictionaries are association lists in insertion order. A key that the program reads
  with \<open>.get(key, [])\<close> is a field holding the list; a key of the profile itself may be
  missing (\<open>None\<close>), and the engine then falls back on the built-in profile.
\<close>

record cat_rules =
  "keywords" :: "string list"
  patterns :: "rx list"

record rules =
  mandatory :: "string list"
  standard :: "string list"
  optional :: "string list"

record profile =
  templates :: "string list option"
  pools :: "(string \<times> string list) list option"
  classification :: "(string \<times> cat_rules) list option"
  category_rules :: "rules option"
  anti_pairs :: "(string \<times> string list) list option"

definition ORDERED_CATEGORIES :: "string list" where
  "ORDERED_CATEGORIES =
     [''subject'', ''action'', ''environment'', ''style'', ''lighting'', ''camera'',
      ''details'', ''mood'']"

definition INTENSITY_RATES :: "(string \<times> rat) list" where
  "INTENSITY_RATES =
     [(''minimal'', 1 / 4), (''light'', 1 / 2), (''moderate'', 3 / 4), (''full'', 1)]"

definition MAX_WORDS :: int where
  "MAX_WORDS = 150"

section \<open>Phase 1: tokenization\<close>

text \<open>
  \<open>re.split(r'\s+-\s+|\s+\|\s+', token)\<close>. A match can only start at the beginning of a
  whitespace run (from inside the run the same characters follow it), it takes the whole
  run, the separator character and the whole run after it.
\<close>

lemma dropWhile_rest_less:
  assumes "d # rest = dropWhile P s"
  shows "length (dropWhile P rest) < length s"
proof -
  have "length (d # rest) \<le> length s"
    unfolding assms by (rule length_dropWhile_le)
  moreover have "length (dropWhile P rest) \<le> length rest"
    by (rule length_dropWhile_le)
  ultimately show ?thesis by simp
qed

lemma dropWhile_rest2_le:
  assumes "d # e # rest = dropWhile P cs"
  shows "length (dropWhile Q rest) \<le> length cs"
proof -
  have "length (d # e # rest) \<le> length cs"
    unfolding assms by (rule length_dropWhile_le)
  moreover have "length (dropWhile Q rest) \<le> length rest"
    by (rule length_dropWhile_le)
  ultimately show ?thesis by simp
qed

function re_split_delims :: "string \<Rightarrow> string list" where
  "re_split_delims s =
     (case s of
        [] \<Rightarrow> [[]]
      | c # cs \<Rightarrow>
          if is_space c then
            (let run = takeWhile is_space s; after = dropWhile is_space s
             in case after of
                  d # e # rest \<Rightarrow>
                    if (d = CHR ''-'' \<or> d = CHR ''|'') \<and> is_space e
                    then [] # re_split_delims (dropWhile is_space rest)
                    else cons_hd run (re_split_delims after)
                | _ \<Rightarrow> cons_hd run (re_split_delims after))
          else cons_hd [c] (re_split_delims cs))"
  by pat_completeness auto
termination
  by (relation "measure length")
     (auto simp: less_Suc_eq_le length_dropWhile_le dropWhile_rest2_le)

declare re_split_delims.simps [simp del]

definition tokenize :: "string \<Rightarrow> string list" where
  "tokenize prompt =
     filter (\<lambda>cleaned. cleaned \<noteq> [])
       (map strip (concat (map re_split_delims (split_on CHR '','' prompt))))"

section \<open>Phase 2: classification\<close>

definition category_matches :: "string \<Rightarrow> cat_rules \<Rightarrow> bool" where
  "category_matches token_lower r \<longleftrightarrow>
     list_ex (\<lambda>keyword. contains token_lower keyword) (keywords r)
     \<or> list_ex (\<lambda>pattern. re_search pattern token_lower) (patterns r)"

definition classify_token_multi :: "string \<Rightarrow> (string \<times> cat_rules) list \<Rightarrow> string list" where
  "classify_token_multi token cls =
     (let token_lower = lower token;
          categories = map fst (filter (\<lambda>(category, r). category_matches token_lower r) cls)
      in if categories = [] then [''unclassified''] else categories)"

text \<open>\<open>if cat in classified: classified[cat].append(token)\<close>.\<close>

definition dict_append :: "(string \<times> string list) list \<Rightarrow> string \<Rightarrow> string \<Rightarrow> (string \<times> string list) list" where
  "dict_append classified cat token =
     (if cat \<in> set (map fst classified)
      then map (\<lambda>(k, v). if k = cat then (k, v @ [token]) else (k, v)) classified
      else classified)"

definition classify_all_tokens :: "string list \<Rightarrow> (string \<times> cat_rules) list \<Rightarrow> (string \<times> string list) list" where
  "classify_all_tokens tokens cls =
     fold (\<lambda>token classified.
             fold (\<lambda>cat d. dict_append d cat token) (classify_token_multi token cls) classified)
       tokens (map (\<lambda>cat. (cat, [])) ORDERED_CATEGORIES @ [(''unclassified'', [])])"

section \<open>Phase 3: gap finding and rules\<close>

text \<open>
  A Python set has no fixed iteration order. Where the program builds a set and later
  iterates it, the model lists its distinct elements and hands the list to \<open>it\<close>, a
  parameter standing for the order in which the interpreter happens to iterate.
\<close>

definition find_gaps :: "(string list \<Rightarrow> string list) \<Rightarrow> (string \<times> string list) list \<Rightarrow> (string \<times> string list) list \<Rightarrow> string list" where
  "find_gaps it classified pls =
     (let present = map fst (filter (\<lambda>(k, v). v \<noteq> [] \<and> k \<noteq> ''unclassified'') classified);
          all_pools = remdups (map fst pls)
      in sort (it (filter (\<lambda>k. k \<notin> set present) all_pools)))"

definition apply_category_rules :: "string list \<Rightarrow> rules \<Rightarrow> string \<Rightarrow> string list" where
  "apply_category_rules gaps rls intensity =
     filter (\<lambda>gap.
               if gap \<in> set (mandatory rls) then True
               else if gap \<in> set (standard rls) then True
               else if gap \<in> set (optional rls) then intensity \<in> set [''moderate'', ''full'']
               else False)
       gaps"

text \<open>
  The functions that query the hash return, next to their result, the queries they made
  in the order of the calls: the coordinate handed to \<open>enhancement_hash\<close>, labelled
  with the decision it serves (the template pick, the primary pick of the category with
  a given coordinate, a numbered fallback attempt of that category, the score of the gap
  at an index). The rates are exact binary fractions, so the floating-point product
  \<open>len(gaps) * rate\<close> is the exact one.
\<close>

datatype decision = TemplatePick | PrimaryPick int | FallbackAttempt int nat | GapScore nat

type_synonym query = "decision \<times> int"

definition intensity_rate :: "string \<Rightarrow> rat" where
  "intensity_rate intensity = (case map_of INTENSITY_RATES intensity of Some r \<Rightarrow> r | None \<Rightarrow> 3 / 4)"

definition select_gaps_to_fill_traced :: "int \<Rightarrow> int \<Rightarrow> string list \<Rightarrow> string \<Rightarrow> string list \<times> query list" where
  "select_gaps_to_fill_traced seed input_hash gaps intensity =
     (let rate = intensity_rate intensity
      in if rate \<ge> 1 then (gaps, [])
         else
           let num_to_fill = max 1 (nat \<lfloor>of_nat (length gaps) * rate\<rfloor>)
           in if num_to_fill \<ge> length gaps then (gaps, [])
              else
                let coords = map (\<lambda>i. 2000 + int i) [0..<length gaps];
                    gap_scores = zip gaps (map (enhancement_hash seed input_hash) coords)
                in (map fst (take num_to_fill (sort_key snd gap_scores)),
                    map (\<lambda>i. (GapScore i, 2000 + int i)) [0..<length gaps]))"

definition select_gaps_to_fill :: "int \<Rightarrow> int \<Rightarrow> string list \<Rightarrow> string \<Rightarrow> string list" where
  "select_gaps_to_fill seed input_hash gaps intensity =
     fst (select_gaps_to_fill_traced seed input_hash gaps intensity)"

section \<open>Phase 4: enhancement selection with anti-pairing\<close>

definition build_forbidden_set :: "(string list \<Rightarrow> string list) \<Rightarrow> string list \<Rightarrow> (string \<times> string list) list \<Rightarrow> string list" where
  "build_forbidden_set it existing_tokens anti =
     it (remdups (concat (map (\<lambda>token.
           let token_lower = lower token
           in concat (map (\<lambda>(trigger, incompatible).
                              if contains token_lower trigger then map lower incompatible else [])
                        anti))
         existing_tokens)))"

text \<open>\<open>any(f in selection.lower() for f in forbidden)\<close>.\<close>

definition conflicts :: "string list \<Rightarrow> string \<Rightarrow> bool" where
  "conflicts forbidden selection \<longleftrightarrow> list_ex (\<lambda>f. contains (lower selection) f) forbidden"

text \<open>The \<open>while attempts < max_attempts\<close> loop; \<open>None\<close> when it ends without a \<open>return\<close>.\<close>

function antipair_search :: "int \<Rightarrow> int \<Rightarrow> int \<Rightarrow> int \<Rightarrow> string list \<Rightarrow> string list \<Rightarrow> nat \<Rightarrow> nat \<Rightarrow> (error + string option) \<times> query list" where
  "antipair_search seed input_hash category_idx conflict_coord pool forbidden attempts max_attempts =
     (if attempts < max_attempts then
        (let coord = conflict_coord + int attempts;
             h2 = enhancement_hash seed input_hash coord
         in case hash_to_index h2 (length pool) of
              Inl e \<Rightarrow> (Inl e, [(FallbackAttempt category_idx attempts, coord)])
            | Inr alt_idx \<Rightarrow>
                let alt_selection = pool ! alt_idx
                in if \<not> conflicts forbidden alt_selection
                   then (Inr (Some alt_selection), [(FallbackAttempt category_idx attempts, coord)])
                   else
                     (case antipair_search seed input_hash category_idx conflict_coord pool
                             forbidden (attempts + 1) max_attempts
                      of (r, cs) \<Rightarrow> (r, (FallbackAttempt category_idx attempts, coord) # cs)))
      else (Inr None, []))"
  by pat_completeness auto
termination
  by (relation "measure (\<lambda>(seed, input_hash, category_idx, conflict_coord, pool, forbidden,
                             attempts, max_attempts). max_attempts - attempts)") auto

declare antipair_search.simps [simp del]

definition select_with_antipair_check_traced :: "int \<Rightarrow> int \<Rightarrow> int \<Rightarrow> string list \<Rightarrow> string list \<Rightarrow> (error + string) \<times> query list" where
  "select_with_antipair_check_traced seed input_hash category_idx pool forbidden =
     (let h = enhancement_hash seed input_hash category_idx
      in case hash_to_index h (length pool) of
           Inl e \<Rightarrow> (Inl e, [(PrimaryPick category_idx, category_idx)])
         | Inr primary_idx \<Rightarrow>
             let selection = pool ! primary_idx
             in if conflicts forbidden selection then
                  (let conflict_coord = category_idx + 1000;
                       max_attempts = min (length pool) 50
                   in case antipair_search seed input_hash category_idx conflict_coord pool
                             forbidden 0 max_attempts of
                        (Inl e, cs) \<Rightarrow> (Inl e, (PrimaryPick category_idx, category_idx) # cs)
                      | (Inr (Some alt_selection), cs) \<Rightarrow>
                          (Inr alt_selection, (PrimaryPick category_idx, category_idx) # cs)
                      | (Inr None, cs) \<Rightarrow>
                          (Inr selection, (PrimaryPick category_idx, category_idx) # cs))
                else (Inr selection, [(PrimaryPick category_idx, category_idx)]))"

definition select_with_antipair_check :: "int \<Rightarrow> int \<Rightarrow> int \<Rightarrow> string list \<Rightarrow> string list \<Rightarrow> error + string" where
  "select_with_antipair_check seed input_hash category_idx pool forbidden =
     fst (select_with_antipair_check_traced seed input_hash category_idx pool forbidden)"


section \<open>Phase 5: template selection and formatting\<close>

definition select_template_traced :: "int \<Rightarrow> int \<Rightarrow> string list \<Rightarrow> (error + string) \<times> query list" where
  "select_template_traced seed input_hash tmpls =
     (let h = enhancement_hash seed input_hash 0
      in case hash_to_index h (length tmpls) of
           Inl e \<Rightarrow> (Inl e, [(TemplatePick, 0)])
         | Inr idx \<Rightarrow> (Inr (tmpls ! idx), [(TemplatePick, 0)]))"

definition select_template :: "int \<Rightarrow> int \<Rightarrow> string list \<Rightarrow> error + string" where
  "select_template seed input_hash tmpls = fst (select_template_traced seed input_hash tmpls)"

text \<open>
  The seven \<open>re.sub\<close> calls of \<open>safe_format_template\<close>, each written as the function
  it computes on every string.
\<close>

text \<open>\<open>re.sub(r'\s+', ' ', s)\<close>\<close>

function collapse_ws :: "string \<Rightarrow> string" where
  "collapse_ws s =
     (case s of
        [] \<Rightarrow> []
      | c # cs \<Rightarrow>
          if is_space c then CHR '' '' # collapse_ws (dropWhile is_space cs)
          else c # collapse_ws cs)"
  by pat_completeness auto
termination
  by (relation "measure length") (auto simp: less_Suc_eq_le length_dropWhile_le)

declare collapse_ws.simps [simp del]

text \<open>\<open>re.sub(r'\s*,\s*', ', ', s)\<close>: a match starts where a whitespace run (possibly
  empty) is followed by a comma, and takes the whitespace after the comma too.\<close>

function normalize_comma_spacing :: "string \<Rightarrow> string" where
  "normalize_comma_spacing s =
     (case s of
        [] \<Rightarrow> []
      | c # cs \<Rightarrow>
          (case dropWhile is_space s of
             d # rest \<Rightarrow>
               if d = CHR '','' then '', '' @ normalize_comma_spacing (dropWhile is_space rest)
               else c # normalize_comma_spacing cs
           | [] \<Rightarrow> c # normalize_comma_spacing cs))"
  by pat_completeness auto
termination
  by (relation "measure length")
     (auto simp del: dropWhile.simps dest: dropWhile_rest_less [OF sym] dropWhile_rest_less)

declare normalize_comma_spacing.simps [simp del]

text \<open>\<open>re.sub(r'(,\s*)+', ', ', s)\<close>: from a comma on, the match takes every following
  comma and whitespace character.\<close>

function collapse_commas :: "string \<Rightarrow> string" where
  "collapse_commas s =
     (case s of
        [] \<Rightarrow> []
      | c # cs \<Rightarrow>
          if c = CHR '','' then
            '', '' @ collapse_commas (dropWhile (\<lambda>d. d = CHR '','' \<or> is_space d) cs)
          else c # collapse_commas cs)"
  by pat_completeness auto
termination
  by (relation "measure length") (auto simp: less_Suc_eq_le length_dropWhile_le)

declare collapse_commas.simps [simp del]

text \<open>\<open>re.sub(r'^\s*,\s*', '', s)\<close>\<close>

definition strip_leading_comma :: "string \<Rightarrow> string" where
  "strip_leading_comma s =
     (case dropWhile is_space s of
        d # rest \<Rightarrow> if d = CHR '','' then dropWhile is_space rest else s
      | [] \<Rightarrow> s)"

text \<open>\<open>re.sub(r'\s*,\s*$', '', s)\<close>\<close>

definition strip_trailing_comma :: "string \<Rightarrow> string" where
  "strip_trailing_comma s =
     (case dropWhile is_space (rev s) of
        d # rest \<Rightarrow> if d = CHR '','' then rev (dropWhile is_space rest) else s
      | [] \<Rightarrow> s)"

text \<open>\<open>re.sub(r'\s*atmosphere\s*$', ' atmosphere', s)\<close>\<close>

definition fix_atmosphere_suffix :: "string \<Rightarrow> string" where
  "fix_atmosphere_suffix s =
     (let r = dropWhile is_space (rev s)
      in if startswith r (rev ''atmosphere'')
         then rev (dropWhile is_space (drop 10 r)) @ '' atmosphere''
         else s)"

text \<open>\<open>re.sub(r'^\s*scene\s*,', '', s)\<close>\<close>

definition remove_orphan_scene :: "string \<Rightarrow> string" where
  "remove_orphan_scene s =
     (let t = dropWhile is_space s
      in if startswith t ''scene'' then
           (case dropWhile is_space (drop 5 t) of
              d # rest \<Rightarrow> if d = CHR '','' then rest else s
            | [] \<Rightarrow> s)
         else s)"

lemma length_replace_le:
  "length new \<le> length old \<Longrightarrow> length (replace s old new) \<le> length s"
proof (induction s old new rule: replace.induct)
  case (1 s old new)
  show ?case
  proof (cases "s = [] \<or> old = []")
    case True
    then show ?thesis by (simp add: replace.simps)
  next
    case False
    show ?thesis
    proof (cases "startswith s old")
      case True
      have len: "length old \<le> length s"
        using True by (induction s old rule: startswith.induct) auto
      have "length (replace (drop (length old) s) old new) \<le> length s - length old"
        using 1(1) [OF False True] 1(3) by simp
      then show ?thesis
        using False True len 1(3) by (subst replace.simps) simp
    next
      case nsw: False
      have "length (replace (tl s) old new) \<le> length (tl s)"
        using 1(2) [OF False nsw] 1(3) by simp
      then show ?thesis
        using False nsw by (subst replace.simps) (cases s, auto)
    qed
  qed
qed

lemma length_replace_less:
  "length new < length old \<Longrightarrow> contains s old \<Longrightarrow> length (replace s old new) < length s"
proof (induction s old new rule: replace.induct)
  case (1 s old new)
  have old: "old \<noteq> []" using 1(3) by auto
  have s: "s \<noteq> []" using 1(4) old by (cases s) auto
  show ?case
  proof (cases "startswith s old")
    case True
    have len: "length old \<le> length s"
      using True by (induction s old rule: startswith.induct) auto
    have "length (replace (drop (length old) s) old new) \<le> length s - length old"
      using length_replace_le [of new old "drop (length old) s"] 1(3) by simp
    then show ?thesis
      using old s True len 1(3) by (subst replace.simps) simp
  next
    case False
    have "contains (tl s) old"
      using 1(4) False s by (cases s) auto
    then have "length (replace (tl s) old new) < length (tl s)"
      using 1(2) old s False 1(3) by simp
    then show ?thesis
      using old s False by (subst replace.simps) (cases s, auto)
  qed
qed

lemma replace_absent: "\<not> contains s old \<Longrightarrow> replace s old new = s"
proof (induction s old new rule: replace.induct)
  case (1 s old new)
  show ?case
  proof (cases "s = [] \<or> old = []")
    case True
    then show ?thesis by (simp add: replace.simps)
  next
    case False
    then obtain a as where s: "s = a # as" by (cases s) auto
    have nsw: "\<not> startswith s old" and nc: "\<not> contains (tl s) old"
      using 1(3) s by auto
    have "replace (tl s) old new = tl s"
      using 1(2) [OF False nsw nc] .
    then show ?thesis
      using False nsw s by (subst replace.simps) simp
  qed
qed

text \<open>The final \<open>while ',,' in result or ', ,' in result\<close> loop.\<close>

function remove_double_commas :: "string \<Rightarrow> string" where
  "remove_double_commas result =
     (if contains result '',,'' \<or> contains result '', ,''
      then remove_double_commas (replace (replace result '',,'' '','') '', ,'' '','')
      else result)"
  by pat_completeness auto
termination
proof (relation "measure length", goal_cases)
  case 1
  show ?case by simp
next
  case (2 result)
  let ?r1 = "replace result '',,'' '',''"
  have le1: "length ?r1 \<le> length result"
    by (rule length_replace_le) simp
  have le2: "length (replace ?r1 '', ,'' '','') \<le> length ?r1"
    by (rule length_replace_le) simp
  show ?case
  proof (cases "contains result '',,''")
    case True
    then have "length ?r1 < length result"
      by (intro length_replace_less) simp_all
    with le2 show ?thesis by simp
  next
    case False
    with 2 have c: "contains result '', ,''" by simp
    have "?r1 = result"
      using False by (rule replace_absent)
    then have "length (replace ?r1 '', ,'' '','') < length result"
      using c by (simp add: length_replace_less)
    then show ?thesis by simp
  qed
qed

declare remove_double_commas.simps [simp del]

definition substitute :: "string \<Rightarrow> (string \<times> string) list \<Rightarrow> string" where
  "substitute template components =
     fold (\<lambda>(key, v) result.
             let placeholder = ''{'' @ key @ ''}''
             in if v \<noteq> [] then replace result placeholder v else replace result placeholder [])
       components template"

definition safe_format_template :: "string \<Rightarrow> (string \<times> string) list \<Rightarrow> string" where
  "safe_format_template template components =
     remove_double_commas
       (strip
         (remove_orphan_scene
           (fix_atmosphere_suffix
             (strip_trailing_comma
               (strip_leading_comma
                 (collapse_commas
                   (normalize_comma_spacing
                     (collapse_ws (substitute template components)))))))))"

section \<open>Phase 6: merging and deduplication\<close>

definition merge_with_unclassified :: "string \<Rightarrow> string list \<Rightarrow> string" where
  "merge_with_unclassified enhanced unclassified =
     (if unclassified = [] then enhanced
      else enhanced @ '', '' @ join '', '' unclassified)"

text \<open>The \<open>for suffix in [...]\<close> loop with its \<open>break\<close>.\<close>

fun strip_suffix :: "string list \<Rightarrow> string \<Rightarrow> string" where
  "strip_suffix [] stem = stem"
| "strip_suffix (suffix # rest) stem =
     (if endswith stem suffix \<and> length stem > length suffix + 2
      then take (length stem - length suffix) stem
      else strip_suffix rest stem)"

definition stem_of :: "string \<Rightarrow> string" where
  "stem_of token = strip_suffix [''ing'', ''ed'', ''ly'', ''s''] (lower token)"

text \<open>
  \<open>len(overlap) >= min(len(words), len(seen_words)) * 0.7\<close> on the word sets. The left
  side is an integer, and the double nearest to \<open>m * 0.7\<close> is an integer only when
  \<open>7 * m\<close> is a multiple of 10, so the comparison is the exact \<open>10 * k \<ge> 7 * m\<close>.
\<close>

definition word_overlap :: "string \<Rightarrow> string \<Rightarrow> bool" where
  "word_overlap stem seen \<longleftrightarrow>
     (let ws = remdups (split_ws stem);
          seen_words = remdups (split_ws seen);
          overlap = filter (\<lambda>w. w \<in> set seen_words) ws
      in 10 * length overlap \<ge> 7 * min (length ws) (length seen_words))"

definition is_duplicate :: "(string list \<Rightarrow> string list) \<Rightarrow> string list \<Rightarrow> string \<Rightarrow> bool" where
  "is_duplicate it seen_stems stem \<longleftrightarrow>
     stem \<in> set seen_stems
     \<or> (split_ws stem \<noteq> [] \<and> list_ex (word_overlap stem) (it seen_stems))"

fun dedup_loop :: "(string list \<Rightarrow> string list) \<Rightarrow> string list \<Rightarrow> string list \<Rightarrow> string list" where
  "dedup_loop it seen_stems [] = []"
| "dedup_loop it seen_stems (token # rest) =
     (let stem = stem_of token
      in if is_duplicate it seen_stems stem then dedup_loop it seen_stems rest
         else token # dedup_loop it (seen_stems @ [stem]) rest)"

definition comma_segments :: "string \<Rightarrow> string list" where
  "comma_segments prompt = filter (\<lambda>t. t \<noteq> []) (map strip (split_on CHR '','' prompt))"

definition deduplicate_prompt :: "(string list \<Rightarrow> string list) \<Rightarrow> string \<Rightarrow> string" where
  "deduplicate_prompt it prompt = join '', '' (dedup_loop it [] (comma_segments prompt))"

section \<open>Phase 7: length enforcement\<close>

text \<open>The slice \<open>xs[:k]\<close>; a negative \<open>k\<close> counts from the end.\<close>

definition py_take :: "int \<Rightarrow> 'a list \<Rightarrow> 'a list" where
  "py_take k xs = (if k \<ge> 0 then take (nat k) xs else take (length xs - nat (- k)) xs)"

definition enforce_length_limit :: "string \<Rightarrow> int \<Rightarrow> string" where
  "enforce_length_limit prompt max_words =
     (let ws = split_ws prompt
      in if int (length ws) \<le> max_words then prompt
         else rstrip (rstrip_comma (join '' '' (py_take max_words ws))))"


section \<open>The built-in profile of DJZ_ZeroENH_V2.py\<close>

text \<open>
  The fields the engine reads (\<open>never_override\<close> and the descriptive fields are never
  read by it). The pattern strings are written as their syntax trees.
\<close>

definition DEFAULT_templates :: "string list" where
  "DEFAULT_templates =
     [''{subject}, {environment}, {style}, {lighting}, {camera}, {details}, {mood} atmosphere'',
      ''{subject}, {environment}, {style}, {lighting}, {details}, {mood}'',
      ''{style}, {subject}, {environment}, {lighting}, {camera}, {details}'',
      ''{camera}, {subject}, {environment}, {style}, {lighting}, {details}'',
      ''{subject}, {environment}, {style}, {lighting}, {details}'',
      ''{mood} scene, {subject}, {environment}, {style}, {lighting}, {details}'',
      ''{subject}, {action}, {environment}, {style}, {lighting}, {details}'',
      ''{style}, {subject}, {environment}, {lighting}, {mood}, {details}'']"

definition DEFAULT_pools :: "(string \<times> string list) list" where
  "DEFAULT_pools =
     [(''subject'',
       [''a woman'', ''a man'', ''a young woman'', ''a young man'', ''an elderly woman'',
        ''an elderly man'', ''a child'', ''a teenager'', ''a couple'',
        ''a group of people'', ''a knight'', ''a wizard'', ''a witch'', ''a sorceress'',
        ''a necromancer'', ''a paladin'', ''a rogue'', ''an assassin'', ''a ranger'',
        ''a barbarian'', ''a druid'', ''a monk'', ''a bard'', ''a warlock'',
        ''an elven archer'', ''a dwarven smith'', ''an orc warrior'', ''a goblin'',
        ''a fairy'', ''a nymph'', ''a cyborg'', ''an android'', ''a robot'',
        ''a mech pilot'', ''an astronaut'', ''a space marine'', ''an alien'', ''a hacker'',
        ''a scientist'', ''a bounty hunter'', ''a samurai'', ''a ninja'', ''a viking'',
        ''a gladiator'', ''a pharaoh'', ''a geisha'', ''a shogun'', ''a roman soldier'',
        ''a medieval peasant'', ''a noble'', ''a detective'', ''a soldier'', ''a pilot'',
        ''a doctor'', ''an artist'', ''a musician'', ''a dancer'', ''an athlete'',
        ''a chef'', ''a photographer'', ''a dragon'', ''a phoenix'', ''a griffin'',
        ''a unicorn'', ''a werewolf'', ''a vampire'', ''a demon'', ''an angel'',
        ''a ghost'', ''a spirit'', ''a wolf'', ''a lion'', ''a tiger'', ''an eagle'',
        ''a raven'', ''a serpent'', ''a whale'', ''a shark'', ''a butterfly'', ''a spider'',
        ''a mechanical spider'', ''a clockwork automaton'', ''a golem'',
        ''a sentient statue'', ''a living shadow'', ''an elemental being'',
        ''a slime creature'', ''a treant'']),
      (''action'',
       [''standing in'', ''sitting in'', ''kneeling in'', ''floating above'',
        ''hovering over'', ''resting in'', ''meditating in'', ''posing in'', ''waiting in'',
        ''watching over'', ''walking through'', ''running through'', ''flying over'',
        ''swimming in'', ''climbing'', ''falling into'', ''descending into'',
        ''ascending toward'', ''emerging from'', ''diving into'', ''fighting in'',
        ''battling through'', ''defending'', ''attacking'', ''dueling in'',
        ''charging through'', ''retreating from'', ''ambushing in'', ''hunting in'',
        ''exploring'', ''discovering'', ''searching through'', ''investigating'',
        ''summoning power in'', ''casting a spell in'', ''channeling energy in'',
        ''communing with nature in'', ''praying in'', ''performing a ritual in'',
        ''transforming in'', ''shapeshifting in'', ''awakening in'', ''mourning in'',
        ''celebrating in'', ''contemplating in'', ''dreaming in'']),
      (''environment'',
       [''a dark forest'', ''an enchanted forest'', ''a misty forest'', ''a bamboo forest'',
        ''a snowy mountain'', ''a volcanic mountain'', ''a floating mountain'',
        ''a vast desert'', ''an oasis'', ''a canyon'', ''a waterfall'', ''a river'',
        ''a beach at sunset'', ''a stormy sea'', ''a coral reef'', ''an underwater cavern'',
        ''a medieval castle'', ''a ruined fortress'', ''a gothic cathedral'',
        ''an ancient temple'', ''a hidden shrine'', ''a sacred grove'',
        ''a wizard's tower'', ''an alchemist's laboratory'', ''a royal throne room'',
        ''a dungeon'', ''catacombs'', ''a crypt'', ''a graveyard at midnight'',
        ''a cyberpunk city'', ''a neon-lit alley'', ''a futuristic metropolis'',
        ''a space station'', ''an alien planet'', ''a terraformed moon'',
        ''a dystopian wasteland'', ''a post-apocalyptic city'', ''a megastructure'',
        ''a virtual reality world'', ''inside a computer mainframe'', ''a crystal cave'',
        ''a bioluminescent cavern'', ''a floating island'', ''the astral plane'',
        ''between dimensions'', ''the void'', ''a pocket dimension'', ''a mirror world'',
        ''a dream realm'', ''cherry blossom gardens'', ''an autumn forest'',
        ''a field of flowers'', ''under the northern lights'', ''during a solar eclipse'']),
      (''style'',
       [''photorealistic'', ''hyperrealistic'', ''cinematic'', ''film still'',
        ''documentary photography'', ''portrait photography'', ''fashion photography'',
        ''oil painting'', ''watercolor painting'', ''acrylic painting'', ''gouache'',
        ''charcoal drawing'', ''pencil sketch'', ''ink drawing'', ''fresco'',
        ''art nouveau'', ''art deco'', ''baroque'', ''renaissance'', ''romanticism'',
        ''impressionist'', ''expressionist'', ''surrealist'', ''cubist'',
        ''pre-raphaelite'', ''ukiyo-e'', ''chinese ink wash'', ''concept art'',
        ''digital painting'', ''matte painting'', ''3D render'', ''low poly 3D'',
        ''voxel art'', ''pixel art'', ''vector art'', ''anime style'', ''manga style'',
        ''studio ghibli style'', ''disney style'', ''pixar style'', ''cartoon style'',
        ''comic book style'', ''graphic novel style'', ''vaporwave aesthetic'',
        ''synthwave'', ''cyberpunk aesthetic'', ''solarpunk'', ''dark academia'',
        ''cottagecore'', ''steampunk'', ''dieselpunk'', ''biopunk'', ''dark souls style'',
        ''elden ring style'', ''final fantasy style'']),
      (''lighting'',
       [''golden hour lighting'', ''blue hour lighting'', ''harsh midday sun'',
        ''soft overcast light'', ''dappled forest light'', ''sunset backlight'',
        ''sunrise light'', ''moonlight'', ''starlight'', ''dramatic rim lighting'',
        ''chiaroscuro lighting'', ''spotlight'', ''harsh shadows'', ''silhouette lighting'',
        ''contre-jour'', ''neon lighting'', ''fluorescent lighting'', ''candlelight'',
        ''firelight'', ''bioluminescent glow'', ''magical glow'', ''holographic light'',
        ''volumetric lighting'', ''god rays'', ''light shafts'', ''foggy atmosphere'',
        ''misty atmosphere'', ''dusty atmosphere'', ''rainy atmosphere'', ''warm lighting'',
        ''cool lighting'', ''neutral lighting'', ''high contrast'', ''low key lighting'',
        ''high key lighting'']),
      (''camera'',
       [''extreme close-up'', ''close-up portrait'', ''medium shot'', ''full body shot'',
        ''wide shot'', ''extreme wide shot'', ''establishing shot'', ''eye level'',
        ''low angle shot'', ''high angle shot'', ''bird's eye view'', ''worm's eye view'',
        ''dutch angle'', ''overhead shot'', ''first person view'', ''over the shoulder'',
        ''point of view shot'', ''three-quarter view'', ''profile view'', ''frontal view'',
        ''rear view'', ''shallow depth of field'', ''deep focus'', ''bokeh background'',
        ''motion blur'', ''long exposure'', ''tilt-shift'', ''fisheye lens'',
        ''wide angle lens'', ''telephoto compression'', ''macro shot'']),
      (''details'',
       [''highly detailed'', ''intricate details'', ''fine details'', ''subtle details'',
        ''sharp focus'', ''crystal clear'', ''pristine quality'', ''4k'', ''8k'',
        ''high resolution'', ''ultra HD'', ''masterpiece'', ''award winning'',
        ''professional'', ''museum quality'', ''trending on artstation'',
        ''featured on behance'', ''gallery quality'', ''ray tracing'',
        ''global illumination'', ''subsurface scattering'', ''ambient occlusion'',
        ''realistic textures'', ''photogrammetry'', ''expressive brushwork'',
        ''visible brushstrokes'', ''smooth gradients'', ''rich colors'',
        ''vibrant palette'', ''muted tones'', ''monochromatic'']),
      (''mood'',
       [''serene'', ''peaceful'', ''tranquil'', ''joyful'', ''euphoric'', ''whimsical'',
        ''playful'', ''romantic'', ''hopeful'', ''triumphant'', ''ominous'', ''foreboding'',
        ''melancholic'', ''sorrowful'', ''tragic'', ''terrifying'', ''horrific'',
        ''unsettling'', ''disturbing'', ''mysterious'', ''enigmatic'', ''surreal'',
        ''dreamlike'', ''ethereal'', ''nostalgic'', ''bittersweet'', ''contemplative'',
        ''introspective'', ''tense'', ''intense'', ''chaotic'', ''explosive'', ''dynamic'',
        ''calm'', ''still'', ''quiet'', ''subtle'', ''understated'', ''epic'', ''grand'',
        ''intimate'', ''cozy'', ''lonely'', ''isolated''])]"

definition DEFAULT_classification :: "(string \<times> cat_rules) list" where
  "DEFAULT_classification =
     [(''subject'',
       \<lparr>keywords =
          [''woman'', ''man'', ''girl'', ''boy'', ''person'', ''people'', ''child'',
           ''teen'', ''knight'', ''wizard'', ''witch'', ''warrior'', ''soldier'',
           ''samurai'', ''ninja'', ''dragon'', ''phoenix'', ''wolf'', ''lion'', ''tiger'',
           ''cat'', ''dog'', ''bird'', ''robot'', ''android'', ''cyborg'', ''alien'',
           ''demon'', ''angel'', ''ghost'', ''fairy'', ''elf'', ''dwarf'', ''orc'',
           ''goblin'', ''vampire'', ''werewolf''],
        patterns =
          [Cat Bol (Lit ''a ''), Cat Bol (Lit ''an ''), Cat Bol (Lit ''the ''),
           Cat Bol (Lit ''my '')]\<rparr>),
      (''action'',
       \<lparr>keywords =
          [''standing'', ''sitting'', ''walking'', ''running'', ''flying'', ''swimming'',
           ''fighting'', ''battling'', ''dancing'', ''singing'', ''playing'', ''reading'',
           ''casting'', ''summoning'', ''meditating'', ''praying'', ''sleeping'',
           ''dreaming'', ''exploring'', ''hunting'', ''searching'', ''watching'', ''waiting''],
        patterns =
          [Cat (Lit ''ing'') (Cat Spaces (Alt (Lit ''in'') (Alt (Lit ''on'') (Alt (Lit ''at'') (Alt (Lit ''through'') (Alt (Lit ''over'') (Alt (Lit ''above'') (Alt (Lit ''below'') (Lit ''near'')))))))))]\<rparr>),
      (''environment'',
       \<lparr>keywords =
          [''forest'', ''mountain'', ''desert'', ''ocean'', ''sea'', ''beach'', ''river'',
           ''city'', ''town'', ''village'', ''castle'', ''tower'', ''temple'', ''church'',
           ''cave'', ''cavern'', ''dungeon'', ''ruins'', ''wasteland'', ''garden'',
           ''space'', ''planet'', ''moon'', ''station'', ''void'', ''dimension'', ''realm''],
        patterns =
          [Cat Bol (Cat (Lit ''in '') (Opt (Alt (Lit ''a '') (Alt (Lit ''an '') (Lit ''the ''))))),
           Cat Bol (Cat (Lit ''at '') (Opt (Alt (Lit ''a '') (Alt (Lit ''an '') (Lit ''the ''))))),
           Cat Bol (Lit ''inside'')]\<rparr>),
      (''style'',
       \<lparr>keywords =
          [''photorealistic'', ''hyperrealistic'', ''realistic'', ''cinematic'',
           ''painting'', ''drawing'', ''sketch'', ''illustration'', ''render'', ''anime'',
           ''manga'', ''cartoon'', ''comic'', ''pixel'', ''voxel'', ''baroque'',
           ''renaissance'', ''impressionist'', ''surrealist'', ''cyberpunk'', ''steampunk'',
           ''solarpunk'', ''dieselpunk'', ''art nouveau'', ''art deco'', ''gothic'',
           ''victorian''],
        patterns =
          [Cat (Lit ''style'') Eol, Cat (Lit ''aesthetic'') Eol,
           Cat Bol (Lit ''in the style of'')]\<rparr>),
      (''lighting'',
       \<lparr>keywords =
          [''lighting'', ''light'', ''lit'', ''glow'', ''glowing'', ''illuminated'',
           ''shadow'', ''shadows'', ''sunlight'', ''moonlight'', ''starlight'',
           ''golden hour'', ''blue hour'', ''sunset'', ''sunrise'', ''dawn'', ''dusk'',
           ''neon'', ''fluorescent'', ''candlelight'', ''firelight'', ''torchlight''],
        patterns =
          [Cat (Lit ''lighting'') Eol, Cat (Lit ''light'') Eol, Cat (Lit ''lit'') Eol]\<rparr>),
      (''camera'',
       \<lparr>keywords =
          [''close-up'', ''closeup'', ''wide shot'', ''medium shot'', ''full body'',
           ''portrait'', ''angle'', ''view'', ''perspective'', ''lens'', ''bokeh'',
           ''depth of field'', ''dof'', ''focus'', ''blur'', ''fisheye'', ''telephoto'',
           ''macro'', ''tilt-shift''],
        patterns =
          [Cat (Lit ''shot'') Eol, Cat (Lit ''angle'') Eol, Cat (Lit ''view'') Eol,
           Cat Bol (Cat Digits (Lit ''mm''))]\<rparr>),
      (''details'',
       \<lparr>keywords =
          [''detailed'', ''intricate'', ''sharp'', ''crisp'', ''clear'', ''4k'', ''8k'',
           ''hd'', ''uhd'', ''high resolution'', ''masterpiece'', ''quality'',
           ''professional'', ''award'', ''artstation'', ''behance'', ''trending''],
        patterns =
          [Cat (Lit ''detailed'') Eol, Cat (Lit ''quality'') Eol,
           Cat Bol (Cat Digits (Cat (Lit ''k'') Eol))]\<rparr>),
      (''mood'',
       \<lparr>keywords =
          [''serene'', ''peaceful'', ''calm'', ''tranquil'', ''joyful'', ''happy'',
           ''dark'', ''ominous'', ''foreboding'', ''mysterious'', ''eerie'', ''epic'',
           ''dramatic'', ''intense'', ''dynamic'', ''chaotic'', ''melancholic'', ''sad'',
           ''nostalgic'', ''romantic'', ''dreamy''],
        patterns =
          [Cat (Lit ''atmosphere'') Eol, Cat (Lit ''mood'') Eol, Cat (Lit ''feeling'') Eol,
           Cat (Lit ''vibe'') Eol]\<rparr>)]"

definition DEFAULT_rules :: rules where
  "DEFAULT_rules =
     \<lparr>mandatory = [''details''],
      standard = [''style'', ''lighting'', ''environment'', ''camera''],
      optional = [''mood'', ''action'']\<rparr>"

definition DEFAULT_anti_pairs :: "(string \<times> string list) list" where
  "DEFAULT_anti_pairs =
     [(''underwater'', [''sunset'', ''sunrise'', ''golden hour'', ''harsh sunlight'',
                     ''dusty atmosphere'']),
      (''space station'', [''golden hour'', ''forest light'', ''dappled'']),
      (''cave'', [''golden hour'', ''blue hour'', ''sunset backlight'', ''harsh midday sun'']),
      (''night'', [''harsh midday sun'', ''bright daylight'', ''golden hour'']),
      (''graveyard'', [''joyful'', ''playful'', ''whimsical'', ''euphoric'']),
      (''sunny'', [''ominous'', ''foreboding'', ''horrific'', ''terrifying'']),
      (''pixel art'', [''ray tracing'', ''photogrammetry'', ''subsurface scattering'',
                    ''hyperrealistic'']),
      (''watercolor'', [''8k'', ''photogrammetry'', ''hyperrealistic'', ''ray tracing'']),
      (''sketch'', [''ray tracing'', ''photogrammetry'', ''8k resolution'']),
      (''moonlight'', [''harsh midday sun'', ''golden hour'', ''bright daylight'']),
      (''neon'', [''candlelight'', ''firelight'', ''torchlight'', ''medieval''])]"

definition DEFAULT_PROFILE :: profile where
  "DEFAULT_PROFILE =
     \<lparr>templates = Some DEFAULT_templates,
      pools = Some DEFAULT_pools,
      classification = Some DEFAULT_classification,
      category_rules = Some DEFAULT_rules,
      anti_pairs = Some DEFAULT_anti_pairs\<rparr>"

section \<open>The main enhancement function (DJZ_ZeroENH_V2.py)\<close>

text \<open>\<open>profile.get(key, DEFAULT_PROFILE[key])\<close>\<close>

definition get_or :: "'a option \<Rightarrow> 'a \<Rightarrow> 'a" where
  "get_or field dflt = (case field of Some v \<Rightarrow> v | None \<Rightarrow> dflt)"

text \<open>\<open>enhancements[gap] = selection\<close>\<close>

definition dict_set :: "(string \<times> string) list \<Rightarrow> string \<Rightarrow> string \<Rightarrow> (string \<times> string) list" where
  "dict_set d k v =
     (if k \<in> set (map fst d) then map (\<lambda>(k', v'). if k' = k then (k', v) else (k', v')) d
      else d @ [(k, v)])"

text \<open>
  The loop \<open>for i, gap in enumerate(sorted(gaps))\<close> of phase 4, on the enumerated list,
  with the dictionary \<open>enhancements\<close> built so far.
\<close>

fun select_enhancements :: "int \<Rightarrow> int \<Rightarrow> (string \<times> string list) list \<Rightarrow> string list \<Rightarrow> (nat \<times> string) list \<Rightarrow> (string \<times> string) list \<Rightarrow> (error + (string \<times> string) list) \<times> query list" where
  "select_enhancements seed input_hash pls forbidden [] enhancements = (Inr enhancements, [])"
| "select_enhancements seed input_hash pls forbidden ((i, gap) # rest) enhancements =
     (case map_of pls gap of
        None \<Rightarrow> select_enhancements seed input_hash pls forbidden rest enhancements
      | Some pool \<Rightarrow>
          if pool = [] then select_enhancements seed input_hash pls forbidden rest enhancements
          else
            (case select_with_antipair_check_traced seed input_hash (int i + 1) pool forbidden of
               (Inl e, cs) \<Rightarrow> (Inl e, cs)
             | (Inr selection, cs) \<Rightarrow>
                 (case select_enhancements seed input_hash pls forbidden rest
                         (dict_set enhancements gap selection)
                  of (r, cs') \<Rightarrow> (r, cs @ cs'))))"

definition build_components :: "(string \<times> string list) list \<Rightarrow> (string \<times> string) list \<Rightarrow> (string \<times> string) list" where
  "build_components classified enhancements =
     map (\<lambda>category.
            (category,
             if category \<in> set (map fst classified) \<and> the (map_of classified category) \<noteq> []
             then join '', '' (the (map_of classified category))
             else if category \<in> set (map fst enhancements)
             then the (map_of enhancements category)
             else []))
       ORDERED_CATEGORIES"

text \<open>Phases 5 to 8, once the enhancements are selected.\<close>

definition finish_prompt :: "(string list \<Rightarrow> string list) \<Rightarrow> string \<Rightarrow> (string \<times> string list) list \<Rightarrow> (string \<times> string) list \<Rightarrow> int \<Rightarrow> string" where
  "finish_prompt it template classified enhancements max_words =
     (let components = build_components classified enhancements;
          enhanced = safe_format_template template components;
          enhanced = merge_with_unclassified enhanced
                       (get_or (map_of classified ''unclassified'') []);
          enhanced = deduplicate_prompt it enhanced
      in enforce_length_limit enhanced max_words)"

definition enhance_prompt_traced :: "(string list \<Rightarrow> string list) \<Rightarrow> string \<Rightarrow> int \<Rightarrow> profile \<Rightarrow> string \<Rightarrow> int \<Rightarrow> (error + string) \<times> query list" where
  "enhance_prompt_traced it input_prompt seed prof intensity max_words =
     (if input_prompt = [] \<or> strip input_prompt = [] then (Inr input_prompt, [])
      else
        let cls = get_or (classification prof) DEFAULT_classification;
            pls = get_or (pools prof) DEFAULT_pools;
            tmpls = get_or (templates prof) DEFAULT_templates;
            rls = get_or (category_rules prof) DEFAULT_rules;
            anti = get_or (anti_pairs prof) DEFAULT_anti_pairs;
            tokens = tokenize input_prompt;
            classified = classify_all_tokens tokens cls;
            gaps = find_gaps it classified pls;
            gaps = apply_category_rules gaps rls intensity;
            input_hash = input_fingerprint input_prompt;
            (gaps, score_coords) = select_gaps_to_fill_traced seed input_hash gaps intensity;
            existing_tokens = concat (map snd classified);
            forbidden = build_forbidden_set it existing_tokens anti
        in case select_enhancements seed input_hash pls forbidden (enumerate 0 (sort gaps)) [] of
             (Inl e, pick_coords) \<Rightarrow> (Inl e, score_coords @ pick_coords)
           | (Inr enhancements, pick_coords) \<Rightarrow>
               (case select_template_traced seed input_hash tmpls of
                  (Inl e, template_coords) \<Rightarrow> (Inl e, score_coords @ pick_coords @ template_coords)
                | (Inr template, template_coords) \<Rightarrow>
                    (Inr (finish_prompt it template classified enhancements max_words),
                     score_coords @ pick_coords @ template_coords)))"

definition enhance_prompt :: "(string list \<Rightarrow> string list) \<Rightarrow> string \<Rightarrow> int \<Rightarrow> profile \<Rightarrow> string \<Rightarrow> int \<Rightarrow> error + string" where
  "enhance_prompt it input_prompt seed prof intensity max_words =
     fst (enhance_prompt_traced it input_prompt seed prof intensity max_words)"

text \<open>The hash queries of one call, in the order in which they are made.\<close>

definition hash_queries :: "(string list \<Rightarrow> string list) \<Rightarrow> string \<Rightarrow> int \<Rightarrow> profile \<Rightarrow> string \<Rightarrow> int \<Rightarrow> query list" where
  "hash_queries it input_prompt seed prof intensity max_words =
     snd (enhance_prompt_traced it input_prompt seed prof intensity max_words)"

section \<open>The V1 engine (DJZ_ZeroENH_V1.py)\<close>

text \<open>
  The helper functions of DJZ_ZeroENH_V1.py, from \<open>enhancement_hash\<close> to
  \<open>enforce_length_limit\<close>, and its constants \<open>ORDERED_CATEGORIES\<close>, \<open>INTENSITY_RATES\<close>
  and \<open>MAX_WORDS\<close> are character for character those of DJZ_ZeroENH_V2.py, so the
  definitions above stand for both files. V1 has its own built-in profile and its own
  \<open>enhance_prompt\<close>, whose selection loop reads \<open>profile["pools"][gap]\<close> without a guard.
\<close>

definition V1_DEFAULT_templates :: "string list" where
  "V1_DEFAULT_templates =
     [''{subject}, {environment}, {style}, {lighting}, {camera}, {details}, {mood} atmosphere'',
      ''{subject}, {environment}, {style}, {lighting}, {details}, {mood}'',
      ''{style}, {subject}, {environment}, {lighting}, {camera}, {details}'',
      ''{camera}, {subject}, {environment}, {style}, {lighting}, {details}'',
      ''{subject}, {environment}, {style}, {lighting}, {details}'',
      ''{mood} scene, {subject}, {environment}, {style}, {lighting}, {details}'',
      ''{subject}, {action}, {environment}, {style}, {lighting}, {details}'',
      ''{style}, {subject}, {environment}, {lighting}, {mood}, {details}'']"

definition V1_DEFAULT_pools :: "(string \<times> string list) list" where
  "V1_DEFAULT_pools =
     [(''subject'',
       [''a woman'', ''a man'', ''a young woman'', ''a young man'', ''an elderly woman'',
        ''an elderly man'', ''a child'', ''a teenager'', ''a couple'',
        ''a group of people'', ''a knight'', ''a wizard'', ''a witch'', ''a sorceress'',
        ''a necromancer'', ''a paladin'', ''a rogue'', ''an assassin'', ''a ranger'',
        ''a barbarian'', ''a druid'', ''a monk'', ''a bard'', ''a warlock'',
        ''an elven archer'', ''a dwarven smith'', ''an orc warrior'', ''a goblin'',
        ''a fairy'', ''a nymph'', ''a cyborg'', ''an android'', ''a robot'',
        ''a mech pilot'', ''an astronaut'', ''a space marine'', ''an alien'', ''a hacker'',
        ''a scientist'', ''a bounty hunter'', ''a samurai'', ''a ninja'', ''a viking'',
        ''a gladiator'', ''a pharaoh'', ''a geisha'', ''a shogun'', ''a roman soldier'',
        ''a medieval peasant'', ''a noble'', ''a detective'', ''a soldier'', ''a pilot'',
        ''a doctor'', ''an artist'', ''a musician'', ''a dancer'', ''an athlete'',
        ''a chef'', ''a photographer'', ''a dragon'', ''a phoenix'', ''a griffin'',
        ''a unicorn'', ''a werewolf'', ''a vampire'', ''a demon'', ''an angel'',
        ''a ghost'', ''a spirit'', ''a wolf'', ''a lion'', ''a tiger'', ''an eagle'',
        ''a raven'', ''a serpent'', ''a whale'', ''a shark'', ''a butterfly'', ''a spider'',
        ''a mechanical spider'', ''a clockwork automaton'', ''a golem'',
        ''a sentient statue'', ''a living shadow'', ''an elemental being'',
        ''a slime creature'', ''a treant'']),
      (''action'',
       [''standing in'', ''sitting in'', ''kneeling in'', ''floating above'',
        ''hovering over'', ''resting in'', ''meditating in'', ''posing in'', ''waiting in'',
        ''watching over'', ''walking through'', ''running through'', ''flying over'',
        ''swimming in'', ''climbing'', ''falling into'', ''descending into'',
        ''ascending toward'', ''emerging from'', ''diving into'', ''fighting in'',
        ''battling through'', ''defending'', ''attacking'', ''dueling in'',
        ''charging through'', ''retreating from'', ''ambushing in'', ''hunting in'',
        ''exploring'', ''discovering'', ''searching through'', ''investigating'',
        ''summoning power in'', ''casting a spell in'', ''channeling energy in'',
        ''communing with nature in'', ''praying in'', ''performing a ritual in'',
        ''transforming in'', ''shapeshifting in'', ''awakening in'', ''mourning in'',
        ''celebrating in'', ''contemplating in'', ''dreaming in'']),
      (''environment'',
       [''a dark forest'', ''an enchanted forest'', ''a misty forest'', ''a bamboo forest'',
        ''a snowy mountain'', ''a volcanic mountain'', ''a floating mountain'',
        ''a vast desert'', ''an oasis'', ''a canyon'', ''a waterfall'', ''a river'',
        ''a beach at sunset'', ''a stormy sea'', ''a coral reef'', ''an underwater cavern'',
        ''a medieval castle'', ''a ruined fortress'', ''a gothic cathedral'',
        ''an ancient temple'', ''a hidden shrine'', ''a sacred grove'',
        ''a wizard's tower'', ''an alchemist's laboratory'', ''a royal throne room'',
        ''a dungeon'', ''catacombs'', ''a crypt'', ''a graveyard at midnight'',
        ''a cyberpunk city'', ''a neon-lit alley'', ''a futuristic metropolis'',
        ''a space station'', ''an alien planet'', ''a terraformed moon'',
        ''a dystopian wasteland'', ''a post-apocalyptic city'', ''a megastructure'',
        ''a virtual reality world'', ''inside a computer mainframe'', ''a crystal cave'',
        ''a bioluminescent cavern'', ''a floating island'', ''the astral plane'',
        ''between dimensions'', ''the void'', ''a pocket dimension'', ''a mirror world'',
        ''a dream realm'', ''cherry blossom gardens'', ''an autumn forest'',
        ''a field of flowers'', ''under the northern lights'', ''during a solar eclipse'']),
      (''style'',
       [''photorealistic'', ''hyperrealistic'', ''cinematic'', ''film still'',
        ''documentary photography'', ''portrait photography'', ''fashion photography'',
        ''oil painting'', ''watercolor painting'', ''acrylic painting'', ''gouache'',
        ''charcoal drawing'', ''pencil sketch'', ''ink drawing'', ''fresco'',
        ''art nouveau'', ''art deco'', ''baroque'', ''renaissance'', ''romanticism'',
        ''impressionist'', ''expressionist'', ''surrealist'', ''cubist'',
        ''pre-raphaelite'', ''ukiyo-e'', ''chinese ink wash'', ''concept art'',
        ''digital painting'', ''matte painting'', ''3D render'', ''low poly 3D'',
        ''voxel art'', ''pixel art'', ''vector art'', ''anime style'', ''manga style'',
        ''studio ghibli style'', ''disney style'', ''pixar style'', ''cartoon style'',
        ''comic book style'', ''graphic novel style'', ''vaporwave aesthetic'',
        ''synthwave'', ''cyberpunk aesthetic'', ''solarpunk'', ''dark academia'',
        ''cottagecore'', ''steampunk'', ''dieselpunk'', ''biopunk'', ''dark souls style'',
        ''elden ring style'', ''final fantasy style'']),
      (''lighting'',
       [''golden hour lighting'', ''blue hour lighting'', ''harsh midday sun'',
        ''soft overcast light'', ''dappled forest light'', ''sunset backlight'',
        ''sunrise light'', ''moonlight'', ''starlight'', ''dramatic rim lighting'',
        ''chiaroscuro lighting'', ''spotlight'', ''harsh shadows'', ''silhouette lighting'',
        ''contre-jour'', ''neon lighting'', ''fluorescent lighting'', ''candlelight'',
        ''firelight'', ''bioluminescent glow'', ''magical glow'', ''holographic light'',
        ''volumetric lighting'', ''god rays'', ''light shafts'', ''foggy atmosphere'',
        ''misty atmosphere'', ''dusty atmosphere'', ''rainy atmosphere'', ''warm lighting'',
        ''cool lighting'', ''neutral lighting'', ''high contrast'', ''low key lighting'',
        ''high key lighting'']),
      (''camera'',
       [''extreme close-up'', ''close-up portrait'', ''medium shot'', ''full body shot'',
        ''wide shot'', ''extreme wide shot'', ''establishing shot'', ''eye level'',
        ''low angle shot'', ''high angle shot'', ''bird's eye view'', ''worm's eye view'',
        ''dutch angle'', ''overhead shot'', ''first person view'', ''over the shoulder'',
        ''point of view shot'', ''three-quarter view'', ''profile view'', ''frontal view'',
        ''rear view'', ''shallow depth of field'', ''deep focus'', ''bokeh background'',
        ''motion blur'', ''long exposure'', ''tilt-shift'', ''fisheye lens'',
        ''wide angle lens'', ''telephoto compression'', ''macro shot'']),
      (''details'',
       [''highly detailed'', ''intricate details'', ''fine details'', ''subtle details'',
        ''sharp focus'', ''crystal clear'', ''pristine quality'', ''4k'', ''8k'',
        ''high resolution'', ''ultra HD'', ''masterpiece'', ''award winning'',
        ''professional'', ''museum quality'', ''trending on artstation'',
        ''featured on behance'', ''gallery quality'', ''ray tracing'',
        ''global illumination'', ''subsurface scattering'', ''ambient occlusion'',
        ''realistic textures'', ''photogrammetry'', ''expressive brushwork'',
        ''visible brushstrokes'', ''smooth gradients'', ''rich colors'',
        ''vibrant palette'', ''muted tones'', ''monochromatic'']),
      (''mood'',
       [''serene'', ''peaceful'', ''tranquil'', ''joyful'', ''euphoric'', ''whimsical'',
        ''playful'', ''romantic'', ''hopeful'', ''triumphant'', ''ominous'', ''foreboding'',
        ''melancholic'', ''sorrowful'', ''tragic'', ''terrifying'', ''horrific'',
        ''unsettling'', ''disturbing'', ''mysterious'', ''enigmatic'', ''surreal'',
        ''dreamlike'', ''ethereal'', ''nostalgic'', ''bittersweet'', ''contemplative'',
        ''introspective'', ''tense'', ''intense'', ''chaotic'', ''explosive'', ''dynamic'',
        ''calm'', ''still'', ''quiet'', ''subtle'', ''understated'', ''epic'', ''grand'',
        ''intimate'', ''cozy'', ''lonely'', ''isolated''])]"

definition V1_DEFAULT_classification :: "(string \<times> cat_rules) list" where
  "V1_DEFAULT_classification =
     [(''subject'',
       \<lparr>keywords =
          [''woman'', ''man'', ''girl'', ''boy'', ''person'', ''people'', ''child'',
           ''teen'', ''knight'', ''wizard'', ''witch'', ''warrior'', ''soldier'',
           ''samurai'', ''ninja'', ''dragon'', ''phoenix'', ''wolf'', ''lion'', ''tiger'',
           ''cat'', ''dog'', ''bird'', ''robot'', ''android'', ''cyborg'', ''alien'',
           ''demon'', ''angel'', ''ghost'', ''fairy'', ''elf'', ''dwarf'', ''orc'',
           ''goblin'', ''vampire'', ''werewolf''],
        patterns =
          [Cat Bol (Lit ''a ''), Cat Bol (Lit ''an ''), Cat Bol (Lit ''the ''),
           Cat Bol (Lit ''my '')]\<rparr>),
      (''action'',
       \<lparr>keywords =
          [''standing'', ''sitting'', ''walking'', ''running'', ''flying'', ''swimming'',
           ''fighting'', ''battling'', ''dancing'', ''singing'', ''playing'', ''reading'',
           ''casting'', ''summoning'', ''meditating'', ''praying'', ''sleeping'',
           ''dreaming'', ''exploring'', ''hunting'', ''searching'', ''watching'', ''waiting''],
        patterns =
          [Cat (Lit ''ing'') (Cat Spaces (Alt (Lit ''in'') (Alt (Lit ''on'') (Alt (Lit ''at'') (Alt (Lit ''through'') (Alt (Lit ''over'') (Alt (Lit ''above'') (Alt (Lit ''below'') (Lit ''near'')))))))))]\<rparr>),
      (''environment'',
       \<lparr>keywords =
          [''forest'', ''mountain'', ''desert'', ''ocean'', ''sea'', ''beach'', ''river'',
           ''city'', ''town'', ''village'', ''castle'', ''tower'', ''temple'', ''church'',
           ''cave'', ''cavern'', ''dungeon'', ''ruins'', ''wasteland'', ''garden'',
           ''space'', ''planet'', ''moon'', ''station'', ''void'', ''dimension'', ''realm''],
        patterns =
          [Cat Bol (Cat (Lit ''in '') (Opt (Alt (Lit ''a '') (Alt (Lit ''an '') (Lit ''the ''))))),
           Cat Bol (Cat (Lit ''at '') (Opt (Alt (Lit ''a '') (Alt (Lit ''an '') (Lit ''the ''))))),
           Cat Bol (Lit ''inside'')]\<rparr>),
      (''style'',
       \<lparr>keywords =
          [''photorealistic'', ''hyperrealistic'', ''realistic'', ''cinematic'',
           ''painting'', ''drawing'', ''sketch'', ''illustration'', ''render'', ''anime'',
           ''manga'', ''cartoon'', ''comic'', ''pixel'', ''voxel'', ''baroque'',
           ''renaissance'', ''impressionist'', ''surrealist'', ''cyberpunk'', ''steampunk'',
           ''solarpunk'', ''dieselpunk'', ''art nouveau'', ''art deco'', ''gothic'',
           ''victorian''],
        patterns =
          [Cat (Lit ''style'') Eol, Cat (Lit ''aesthetic'') Eol,
           Cat Bol (Lit ''in the style of'')]\<rparr>),
      (''lighting'',
       \<lparr>keywords =
          [''lighting'', ''light'', ''lit'', ''glow'', ''glowing'', ''illuminated'',
           ''shadow'', ''shadows'', ''sunlight'', ''moonlight'', ''starlight'',
           ''golden hour'', ''blue hour'', ''sunset'', ''sunrise'', ''dawn'', ''dusk'',
           ''neon'', ''fluorescent'', ''candlelight'', ''firelight'', ''torchlight''],
        patterns =
          [Cat (Lit ''lighting'') Eol, Cat (Lit ''light'') Eol, Cat (Lit ''lit'') Eol]\<rparr>),
      (''camera'',
       \<lparr>keywords =
          [''close-up'', ''closeup'', ''wide shot'', ''medium shot'', ''full body'',
           ''portrait'', ''angle'', ''view'', ''perspective'', ''lens'', ''bokeh'',
           ''depth of field'', ''dof'', ''focus'', ''blur'', ''fisheye'', ''telephoto'',
           ''macro'', ''tilt-shift''],
        patterns =
          [Cat (Lit ''shot'') Eol, Cat (Lit ''angle'') Eol, Cat (Lit ''view'') Eol,
           Cat Bol (Cat Digits (Lit ''mm''))]\<rparr>),
      (''details'',
       \<lparr>keywords =
          [''detailed'', ''intricate'', ''sharp'', ''crisp'', ''clear'', ''4k'', ''8k'',
           ''hd'', ''uhd'', ''high resolution'', ''masterpiece'', ''quality'',
           ''professional'', ''award'', ''artstation'', ''behance'', ''trending''],
        patterns =
          [Cat (Lit ''detailed'') Eol, Cat (Lit ''quality'') Eol,
           Cat Bol (Cat Digits (Cat (Lit ''k'') Eol))]\<rparr>),
      (''mood'',
       \<lparr>keywords =
          [''serene'', ''peaceful'', ''calm'', ''tranquil'', ''joyful'', ''happy'',
           ''dark'', ''ominous'', ''foreboding'', ''mysterious'', ''eerie'', ''epic'',
           ''dramatic'', ''intense'', ''dynamic'', ''chaotic'', ''melancholic'', ''sad'',
           ''nostalgic'', ''romantic'', ''dreamy''],
        patterns =
          [Cat (Lit ''atmosphere'') Eol, Cat (Lit ''mood'') Eol, Cat (Lit ''feeling'') Eol,
           Cat (Lit ''vibe'') Eol]\<rparr>)]"

definition V1_DEFAULT_rules :: rules where
  "V1_DEFAULT_rules =
     \<lparr>mandatory = [''details''],
      standard = [''style'', ''lighting'', ''environment'', ''camera''],
      optional = [''mood'', ''action'']\<rparr>"

definition V1_DEFAULT_anti_pairs :: "(string \<times> string list) list" where
  "V1_DEFAULT_anti_pairs =
     [(''underwater'', [''sunset'', ''sunrise'', ''golden hour'', ''harsh sunlight'',
                     ''dusty atmosphere'']),
      (''space station'', [''golden hour'', ''forest light'', ''dappled'']),
      (''cave'', [''golden hour'', ''blue hour'', ''sunset backlight'', ''harsh midday sun'']),
      (''night'', [''harsh midday sun'', ''bright daylight'', ''golden hour'']),
      (''graveyard'', [''joyful'', ''playful'', ''whimsical'', ''euphoric'']),
      (''sunny'', [''ominous'', ''foreboding'', ''horrific'', ''terrifying'']),
      (''pixel art'', [''ray tracing'', ''photogrammetry'', ''subsurface scattering'',
                    ''hyperrealistic'']),
      (''watercolor'', [''8k'', ''photogrammetry'', ''hyperrealistic'', ''ray tracing'']),
      (''sketch'', [''ray tracing'', ''photogrammetry'', ''8k resolution'']),
      (''moonlight'', [''harsh midday sun'', ''golden hour'', ''bright daylight'']),
      (''neon'', [''candlelight'', ''firelight'', ''torchlight'', ''medieval''])]"

text \<open>V1's loop \<open>for i, gap in enumerate(sorted(gaps))\<close>.\<close>

fun V1_select_enhancements :: "int \<Rightarrow> int \<Rightarrow> (string \<times> string list) list \<Rightarrow> string list \<Rightarrow> (nat \<times> string) list \<Rightarrow> (string \<times> string) list \<Rightarrow> error + (string \<times> string) list" where
  "V1_select_enhancements seed input_hash pls forbidden [] enhancements = Inr enhancements"
| "V1_select_enhancements seed input_hash pls forbidden ((i, gap) # rest) enhancements =
     (case map_of pls gap of
        None \<Rightarrow> Inl KeyError
      | Some pool \<Rightarrow>
          (case select_with_antipair_check seed input_hash (int i + 1) pool forbidden of
             Inl e \<Rightarrow> Inl e
           | Inr selection \<Rightarrow>
               V1_select_enhancements seed input_hash pls forbidden rest
                 (dict_set enhancements gap selection)))"

definition V1_enhance_prompt :: "(string list \<Rightarrow> string list) \<Rightarrow> string \<Rightarrow> int \<Rightarrow> string \<Rightarrow> int \<Rightarrow> error + string" where
  "V1_enhance_prompt it input_prompt seed intensity max_words =
     (if input_prompt = [] \<or> strip input_prompt = [] then Inr input_prompt
      else
        let tokens = tokenize input_prompt;
            classified = classify_all_tokens tokens V1_DEFAULT_classification;
            gaps = find_gaps it classified V1_DEFAULT_pools;
            gaps = apply_category_rules gaps V1_DEFAULT_rules intensity;
            input_hash = input_fingerprint input_prompt;
            gaps = select_gaps_to_fill seed input_hash gaps intensity;
            existing_tokens = concat (map snd classified);
            forbidden = build_forbidden_set it existing_tokens V1_DEFAULT_anti_pairs
        in case V1_select_enhancements seed input_hash V1_DEFAULT_pools forbidden
                  (enumerate 0 (sort gaps)) [] of
             Inl e \<Rightarrow> Inl e
           | Inr enhancements \<Rightarrow>
               (case select_template seed input_hash V1_DEFAULT_templates of
                  Inl e \<Rightarrow> Inl e
                | Inr template \<Rightarrow>
                    Inr (finish_prompt it template classified enhancements max_words)))"


section \<open>Definitions used to state the properties\<close>

text \<open>The pool entry that the hash selects at a coordinate:
  \<open>pool[hash_to_index(enhancement_hash(seed, input_hash, coord), len(pool))]\<close>.\<close>

definition candidate_at :: "int \<Rightarrow> int \<Rightarrow> int \<Rightarrow> string list \<Rightarrow> string" where
  "candidate_at seed input_hash coord pool =
     pool ! nat (enhancement_hash seed input_hash coord mod int (length pool))"


text \<open>The score of the gap at index \<open>i\<close> in \<open>select_gaps_to_fill\<close>.\<close>

definition gap_score :: "int \<Rightarrow> int \<Rightarrow> nat \<Rightarrow> int" where
  "gap_score seed input_hash i = enhancement_hash seed input_hash (2000 + int i)"


text \<open>A profile with a lighting pool of three phrases, one of which clashes with
  \<open>underwater\<close>.\<close>

definition antipair_profile :: profile where
  "antipair_profile =
     \<lparr>templates = Some [''{subject}, {lighting}''],
      pools = Some [(''lighting'', [''golden hour lighting'', ''moonlight'', ''neon lighting''])],
      classification = Some [(''subject'', \<lparr>keywords = [''scene''], patterns = []\<rparr>)],
      category_rules = Some \<lparr>mandatory = [], standard = [''lighting''], optional = []\<rparr>,
      anti_pairs = Some [(''underwater'', [''sunset'', ''golden hour''])]\<rparr>"

section \<open>Properties\<close>

subsection \<open>Empty input\<close>

lemma strip_eq_Nil_iff: "strip s = [] \<longleftrightarrow> (\<forall>c\<in>set s. is_space c)"
proof -
  have "(\<forall>c\<in>set (dropWhile is_space s). is_space c) \<longleftrightarrow> (\<forall>c\<in>set s. is_space c)"
  proof
    assume a: "\<forall>c\<in>set (dropWhile is_space s). is_space c"
    have "set s = set (takeWhile is_space s) \<union> set (dropWhile is_space s)"
      by (metis set_append takeWhile_dropWhile_id)
    with a show "\<forall>c\<in>set s. is_space c"
      by (auto dest: set_takeWhileD)
  next
    assume "\<forall>c\<in>set s. is_space c"
    then show "\<forall>c\<in>set (dropWhile is_space s). is_space c"
      by (auto dest: set_dropWhileD)
  qed
  then show ?thesis
    by (simp add: strip_def rstrip_def lstrip_def dropWhile_eq_Nil_conv)
qed


text \<open>
  Claim C10. If the input prompt is empty or consists only of whitespace, both engines
  return it unchanged, and no stage runs: the call queries the hash at no coordinate.
\<close>

theorem empty_input_short_circuit:
  assumes "\<forall>c\<in>set input_prompt. is_space c"
  shows "enhance_prompt it input_prompt seed prof intensity max_words = Inr input_prompt
       \<and> hash_queries it input_prompt seed prof intensity max_words = []
       \<and> V1_enhance_prompt it input_prompt seed intensity max_words = Inr input_prompt"
proof -
  have "strip input_prompt = []"
    using assms by (simp add: strip_eq_Nil_iff)
  then show ?thesis
    by (simp add: enhance_prompt_def hash_queries_def enhance_prompt_traced_def V1_enhance_prompt_def)
qed

theorem empty_input_short_circuit_witness:
  "list_all is_space [CHR 0x20, CHR 0x0A]
   \<and> enhance_prompt (\<lambda>xs. xs) [CHR 0x20, CHR 0x0A] 42 DEFAULT_PROFILE ''moderate'' 150 = Inr [CHR 0x20, CHR 0x0A]
   \<and> hash_queries (\<lambda>xs. xs) [CHR 0x20, CHR 0x0A] 42 DEFAULT_PROFILE ''moderate'' 150 = []
   \<and> V1_enhance_prompt (\<lambda>xs. xs) [CHR 0x20, CHR 0x0A] 42 ''moderate'' 150 = Inr [CHR 0x20, CHR 0x0A]"
proof -
  have h: "\<forall>c\<in>set [CHR 0x20, CHR 0x0A]. is_space c"
    by (simp add: is_space_def)
  show ?thesis
    using h empty_input_short_circuit [OF h, of "\<lambda>xs. xs" 42 DEFAULT_PROFILE "''moderate''" 150]
    by (simp add: list_all_iff)
qed


subsection \<open>Anti-pair selection\<close>

lemma antipair_search_spec:
  assumes "pool \<noteq> []"
  shows "(case fst (antipair_search seed ih ci cc pool forbidden attempts max_attempts) of
       Inl e \<Rightarrow> False
     | Inr None \<Rightarrow> (\<forall>a. attempts \<le> a \<and> a < max_attempts \<longrightarrow> conflicts forbidden (candidate_at seed ih (cc + int a) pool))
     | Inr (Some alt) \<Rightarrow> (\<exists>a. attempts \<le> a \<and> a < max_attempts \<and> alt = candidate_at seed ih (cc + int a) pool
           \<and> \<not> conflicts forbidden alt
           \<and> (\<forall>b. attempts \<le> b \<and> b < a \<longrightarrow> conflicts forbidden (candidate_at seed ih (cc + int b) pool))))"
  using assms
proof (induction seed ih ci cc pool forbidden attempts max_attempts rule: antipair_search.induct)
  case (1 seed ih ci cc pool forbidden attempts max_attempts)
  show ?case
  proof (cases "attempts < max_attempts")
    case False
    then show ?thesis by (auto simp: antipair_search.simps)
  next
    case True
    let ?alt = "candidate_at seed ih (cc + int attempts) pool"
    have idx: "hash_to_index (enhancement_hash seed ih (cc + int attempts)) (length pool)
               = Inr (nat (enhancement_hash seed ih (cc + int attempts) mod int (length pool)))"
      using 1(2) by (simp add: hash_to_index_def)
    show ?thesis
    proof (cases "conflicts forbidden ?alt")
      case False
      then show ?thesis
        using True idx
        by (subst antipair_search.simps) (auto simp: candidate_at_def Let_def intro!: exI[of _ attempts])
    next
      case c: True
      have IH: "case fst (antipair_search seed ih ci cc pool forbidden (attempts + 1) max_attempts) of
       Inl e \<Rightarrow> False
     | Inr None \<Rightarrow> (\<forall>a. attempts + 1 \<le> a \<and> a < max_attempts \<longrightarrow> conflicts forbidden (candidate_at seed ih (cc + int a) pool))
     | Inr (Some alt) \<Rightarrow> (\<exists>a. attempts + 1 \<le> a \<and> a < max_attempts \<and> alt = candidate_at seed ih (cc + int a) pool
           \<and> \<not> conflicts forbidden alt
           \<and> (\<forall>b. attempts + 1 \<le> b \<and> b < a \<longrightarrow> conflicts forbidden (candidate_at seed ih (cc + int b) pool)))"
        using 1(1)[OF True refl refl idx refl] c True 1(2) by (simp add: candidate_at_def)
      have step: "fst (antipair_search seed ih ci cc pool forbidden attempts max_attempts)
                = fst (antipair_search seed ih ci cc pool forbidden (attempts + 1) max_attempts)"
        using True idx c
        by (subst antipair_search.simps) (simp add: candidate_at_def Let_def split: prod.splits)
      have le: "\<And>a. attempts \<le> a \<longleftrightarrow> a = attempts \<or> attempts + 1 \<le> a" by auto
      show ?thesis
        unfolding step using IH c
        by (auto split: sum.splits option.splits simp: le)
    qed
  qed
qed



text \<open>
  Claim C3, as the code has it. For a non-empty pool a phrase of the pool is always
  returned. It is the primary pick when that is free of forbidden terms; otherwise it is
  the first conflict-free phrase among the \<open>min(len(pool), 50)\<close> alternates probed at the
  coordinates \<open>1000 + category_idx + attempt\<close>; and only when every probed alternate
  conflicts is it the conflicting primary pick. The probes are hash picks and need not
  cover the pool.
\<close>

theorem antipair_selection:
  assumes "pool \<noteq> []"
  shows "\<exists>sel. select_with_antipair_check seed ih idx pool forbidden = Inr sel \<and> sel \<in> set pool \<and>
     (if \<not> conflicts forbidden (candidate_at seed ih idx pool) then sel = candidate_at seed ih idx pool
      else if \<exists>a<min (length pool) 50. \<not> conflicts forbidden (candidate_at seed ih (idx + 1000 + int a) pool)
      then \<exists>a<min (length pool) 50. sel = candidate_at seed ih (idx + 1000 + int a) pool
              \<and> \<not> conflicts forbidden sel
              \<and> (\<forall>b<a. conflicts forbidden (candidate_at seed ih (idx + 1000 + int b) pool))
      else sel = candidate_at seed ih idx pool)"
proof -
  have mem: "\<And>c. candidate_at seed ih c pool \<in> set pool"
    using assms by (simp add: candidate_at_def nat_less_iff)
  have idx: "hash_to_index (enhancement_hash seed ih idx) (length pool)
               = Inr (nat (enhancement_hash seed ih idx mod int (length pool)))"
    using assms by (simp add: hash_to_index_def)
  show ?thesis
  proof (cases "conflicts forbidden (candidate_at seed ih idx pool)")
    case False
    then show ?thesis
      using idx mem [of idx]
      by (simp add: select_with_antipair_check_def select_with_antipair_check_traced_def
            candidate_at_def Let_def)
  next
    case True
    obtain r cs where s: "antipair_search seed ih idx (idx + 1000) pool forbidden 0 (min (length pool) 50) = (r, cs)"
      by (cases "antipair_search seed ih idx (idx + 1000) pool forbidden 0 (min (length pool) 50)")
    have spec: "case r of
       Inl e \<Rightarrow> False
     | Inr None \<Rightarrow> (\<forall>a. 0 \<le> a \<and> a < min (length pool) 50 \<longrightarrow> conflicts forbidden (candidate_at seed ih (idx + 1000 + int a) pool))
     | Inr (Some alt) \<Rightarrow> (\<exists>a. 0 \<le> a \<and> a < min (length pool) 50 \<and> alt = candidate_at seed ih (idx + 1000 + int a) pool
           \<and> \<not> conflicts forbidden alt
           \<and> (\<forall>b. 0 \<le> b \<and> b < a \<longrightarrow> conflicts forbidden (candidate_at seed ih (idx + 1000 + int b) pool)))"
      using antipair_search_spec [OF assms, where seed = seed and ih = ih and ci = idx and cc = "idx + 1000"
          and forbidden = forbidden and attempts = 0 and max_attempts = "min (length pool) 50"] s
      by simp
    have sel: "select_with_antipair_check seed ih idx pool forbidden =
        (case r of Inl e \<Rightarrow> Inl e | Inr None \<Rightarrow> Inr (candidate_at seed ih idx pool) | Inr (Some alt) \<Rightarrow> Inr alt)"
      using idx True s
      by (simp add: select_with_antipair_check_def select_with_antipair_check_traced_def
            candidate_at_def Let_def split: sum.splits option.splits)
    show ?thesis
    proof (cases r)
      case (Inl e)
      with spec show ?thesis by simp
    next
      case (Inr o1)
      show ?thesis
      proof (cases o1)
        case None
        then show ?thesis
          using spec Inr True sel mem [of idx] by auto
      next
        case (Some alt)
        then obtain a where a: "a < min (length pool) 50" "alt = candidate_at seed ih (idx + 1000 + int a) pool"
            "\<not> conflicts forbidden alt"
            "\<forall>b<a. conflicts forbidden (candidate_at seed ih (idx + 1000 + int b) pool)"
          using spec Inr by auto
        have "\<exists>a<min (length pool) 50. \<not> conflicts forbidden (candidate_at seed ih (idx + 1000 + int a) pool)"
          using a by blast
        moreover have "\<exists>a<min (length pool) 50. alt = candidate_at seed ih (idx + 1000 + int a) pool
              \<and> \<not> conflicts forbidden alt
              \<and> (\<forall>b<a. conflicts forbidden (candidate_at seed ih (idx + 1000 + int b) pool))"
          using a by blast
        moreover have "alt \<in> set pool" using a(2) mem by simp
        ultimately show ?thesis
          using True sel Inr Some by simp
      qed
    qed
  qed
qed


theorem antipair_selection_witness:
  "[''golden hour lighting'', ''moonlight''] \<noteq> []
   \<and> (\<exists>sel. select_with_antipair_check 42 7 1 [''golden hour lighting'', ''moonlight''] [''golden hour''] = Inr sel
          \<and> sel \<in> set [''golden hour lighting'', ''moonlight''])"
proof -
  have h: "[''golden hour lighting'', ''moonlight''] \<noteq> []" by simp
  show ?thesis
    using h antipair_selection [OF h, of 42 7 1 "[''golden hour'']"] by blast
qed

text \<open>
  Claim C3 as stated fails: with the prompt \<open>underwater scene\<close> and seed 42 the primary
  pick and all three probed alternates of the lighting pool are its first phrase, which
  contains the forbidden term \<open>golden hour\<close>, although \<open>moonlight\<close> in the same pool is
  free of every forbidden term.
\<close>

theorem antipair_avoidance_counterexample:
  "build_forbidden_set (\<lambda>xs. xs) [''underwater scene''] [(''underwater'', [''sunset'', ''golden hour''])]
     = [''sunset'', ''golden hour'']
   \<and> select_with_antipair_check 42 (input_fingerprint ''underwater scene'') 1
        [''golden hour lighting'', ''moonlight'', ''neon lighting''] [''sunset'', ''golden hour'']
     = Inr ''golden hour lighting''
   \<and> conflicts [''sunset'', ''golden hour''] ''golden hour lighting''
   \<and> \<not> conflicts [''sunset'', ''golden hour''] ''moonlight''
   \<and> enhance_prompt (\<lambda>xs. xs) ''underwater scene'' 42 antipair_profile ''full'' 150
     = Inr ''underwater scene, golden hour lighting''"
  by code_simp

subsection \<open>Intensity thinning\<close>

lemma insort_key_map: "insort_key k (f x) (map f ys) = map f (insort_key (\<lambda>a. k (f a)) x ys)"
  by (induction ys) auto

lemma sort_key_map: "sort_key k (map f xs) = map f (sort_key (\<lambda>a. k (f a)) xs)"
  by (induction xs) (auto simp: insort_key_map)

lemma select_gaps_to_fill_unfold:
  "select_gaps_to_fill seed ih gaps intensity =
     (if 1 \<le> intensity_rate intensity
         \<or> length gaps \<le> max 1 (nat \<lfloor>of_nat (length gaps) * intensity_rate intensity\<rfloor>)
      then gaps
      else map fst (take (max 1 (nat \<lfloor>of_nat (length gaps) * intensity_rate intensity\<rfloor>))
             (sort_key snd (zip gaps (map (enhancement_hash seed ih)
                (map (\<lambda>i. 2000 + int i) [0..<length gaps]))))))"
  by (simp add: select_gaps_to_fill_def select_gaps_to_fill_traced_def Let_def)

lemma thinning_indices:
  assumes "n < length gaps"
  shows "\<exists>idxs. map fst (take n (sort_key snd (zip gaps (map (enhancement_hash seed ih) (map (\<lambda>i. 2000 + int i) [0..<length gaps])))))
               = map ((!) gaps) idxs
     \<and> distinct idxs \<and> set idxs \<subseteq> {..<length gaps} \<and> length idxs = n
     \<and> (\<forall>i\<in>set idxs. \<forall>j<length gaps. j \<notin> set idxs \<longrightarrow> gap_score seed ih i \<le> gap_score seed ih j)"
proof -
  let ?sc = "gap_score seed ih"
  let ?f = "\<lambda>i. (gaps ! i, ?sc i)"
  let ?srt = "sort_key ?sc [0..<length gaps]"
  have z: "zip gaps (map (enhancement_hash seed ih) (map (\<lambda>i. 2000 + int i) [0..<length gaps]))
           = map ?f [0..<length gaps]"
    by (rule nth_equalityI) (simp_all add: gap_score_def)
  have sk: "sort_key snd (map ?f [0..<length gaps]) = map ?f ?srt"
    by (simp add: sort_key_map)
  have e1: "map fst (take n (sort_key snd (zip gaps (map (enhancement_hash seed ih) (map (\<lambda>i. 2000 + int i) [0..<length gaps])))))
           = map ((!) gaps) (take n ?srt)"
    unfolding z sk by (simp add: take_map comp_def)
  have set_srt: "set ?srt = {..<length gaps}" by auto
  have d: "distinct (take n ?srt)" by (simp add: distinct_take)
  have sub: "set (take n ?srt) \<subseteq> {..<length gaps}"
    using set_take_subset [of n ?srt] set_srt by blast
  have len: "length (take n ?srt) = n" using assms by simp
  have "sorted (map ?sc (take n ?srt @ drop n ?srt))"
    by (simp only: append_take_drop_id sorted_sort_key)
  then have "sorted (map ?sc (take n ?srt) @ map ?sc (drop n ?srt))"
    by (simp only: map_append)
  then have ord: "\<forall>x\<in>set (take n ?srt). \<forall>y\<in>set (drop n ?srt). ?sc x \<le> ?sc y"
    by (auto simp: sorted_append)
  have "\<forall>i\<in>set (take n ?srt). \<forall>j<length gaps. j \<notin> set (take n ?srt) \<longrightarrow> ?sc i \<le> ?sc j"
  proof (intro ballI allI impI)
    fix i j assume i: "i \<in> set (take n ?srt)" and j: "j < length gaps" "j \<notin> set (take n ?srt)"
    have "set ?srt = set (take n ?srt) \<union> set (drop n ?srt)"
      by (metis append_take_drop_id set_append)
    with j set_srt have "j \<in> set (drop n ?srt)" by blast
    with ord i show "?sc i \<le> ?sc j" by blast
  qed
  with e1 d sub len show ?thesis by blast
qed

lemma rate_floor_le:
  fixes r :: rat
  assumes "0 \<le> r" "r \<le> 1"
  shows "nat \<lfloor>of_nat n * r\<rfloor> \<le> n"
proof -
  have "of_nat n * r \<le> of_nat n"
    using assms by (simp add: mult_left_le)
  then have "\<lfloor>of_nat n * r\<rfloor> \<le> \<lfloor>(of_nat n :: rat)\<rfloor>"
    by (rule floor_mono)
  then show ?thesis by simp
qed


text \<open>
  Claim C8. The rates are 1/4, 1/2, 3/4 and 1. For a non-empty gap list, intensity
  \<open>full\<close> keeps every gap; each other intensity keeps the gaps at
  \<open>n = max(1, floor(len(gaps) * rate))\<close> distinct indices, and no gap that is dropped has a
  smaller score \<open>hash(seed, fingerprint, 2000 + index)\<close> than a gap that is kept.
\<close>

theorem intensity_thinning:
  assumes "gaps \<noteq> []"
  shows "intensity_rate ''minimal'' = 1 / 4 \<and> intensity_rate ''light'' = 1 / 2
       \<and> intensity_rate ''moderate'' = 3 / 4 \<and> intensity_rate ''full'' = 1
       \<and> select_gaps_to_fill seed ih gaps ''full'' = gaps
       \<and> (intensity \<in> {''minimal'', ''light'', ''moderate''} \<longrightarrow>
            (\<exists>idxs. select_gaps_to_fill seed ih gaps intensity = map ((!) gaps) idxs
               \<and> distinct idxs \<and> set idxs \<subseteq> {..<length gaps}
               \<and> length idxs = max 1 (nat \<lfloor>of_nat (length gaps) * intensity_rate intensity\<rfloor>)
               \<and> (\<forall>i\<in>set idxs. \<forall>j<length gaps. j \<notin> set idxs \<longrightarrow>
                      gap_score seed ih i \<le> gap_score seed ih j)))"
proof -
  have rates: "intensity_rate ''minimal'' = 1 / 4" "intensity_rate ''light'' = 1 / 2"
      "intensity_rate ''moderate'' = 3 / 4" "intensity_rate ''full'' = 1"
    by (simp_all add: intensity_rate_def INTENSITY_RATES_def)
  have full: "select_gaps_to_fill seed ih gaps ''full'' = gaps"
    by (simp add: select_gaps_to_fill_def select_gaps_to_fill_traced_def rates)
  have thin: "\<exists>idxs. select_gaps_to_fill seed ih gaps intensity = map ((!) gaps) idxs
               \<and> distinct idxs \<and> set idxs \<subseteq> {..<length gaps}
               \<and> length idxs = max 1 (nat \<lfloor>of_nat (length gaps) * intensity_rate intensity\<rfloor>)
               \<and> (\<forall>i\<in>set idxs. \<forall>j<length gaps. j \<notin> set idxs \<longrightarrow>
                      gap_score seed ih i \<le> gap_score seed ih j)"
    if mem: "intensity \<in> {''minimal'', ''light'', ''moderate''}"
  proof -
    let ?r = "intensity_rate intensity"
    let ?n = "max 1 (nat \<lfloor>of_nat (length gaps) * ?r\<rfloor>)"
    have r: "0 \<le> ?r" "?r < 1" using mem rates by auto
    have len1: "1 \<le> length gaps" using assms by (cases gaps) auto
    have nle: "?n \<le> length gaps"
      using rate_floor_le [where r = "?r" and n = "length gaps"] r len1 by simp
    show ?thesis
    proof (cases "?n < length gaps")
      case True
      have "select_gaps_to_fill seed ih gaps intensity =
            map fst (take ?n (sort_key snd (zip gaps (map (enhancement_hash seed ih) (map (\<lambda>i. 2000 + int i) [0..<length gaps])))))"
      proof -
        have "\<not> (1 \<le> ?r \<or> length gaps \<le> ?n)" using True r by linarith
        then show ?thesis by (simp only: select_gaps_to_fill_unfold if_False)
      qed
      then show ?thesis
        using thinning_indices [OF True, where seed = seed and ih = ih] by simp
    next
      case False
      with nle have eq: "?n = length gaps" by linarith
      have sel: "select_gaps_to_fill seed ih gaps intensity = gaps"
      proof -
        have "1 \<le> ?r \<or> length gaps \<le> ?n" using False by linarith
        then show ?thesis by (simp only: select_gaps_to_fill_unfold if_True)
      qed
      have "select_gaps_to_fill seed ih gaps intensity = map ((!) gaps) [0..<length gaps]
          \<and> distinct [0..<length gaps] \<and> set [0..<length gaps] \<subseteq> {..<length gaps}
          \<and> length [0..<length gaps] = ?n
          \<and> (\<forall>i\<in>set [0..<length gaps]. \<forall>j<length gaps. j \<notin> set [0..<length gaps] \<longrightarrow>
                      gap_score seed ih i \<le> gap_score seed ih j)"
        using sel eq by (auto simp: map_nth)
      then show ?thesis by blast
    qed
  qed
  show ?thesis using rates full thin by blast
qed

theorem intensity_thinning_witness:
  "[''camera'', ''details'', ''lighting'', ''style''] \<noteq> []
   \<and> select_gaps_to_fill 42 7 [''camera'', ''details'', ''lighting'', ''style''] ''full''
       = [''camera'', ''details'', ''lighting'', ''style'']
   \<and> (\<exists>idxs. select_gaps_to_fill 42 7 [''camera'', ''details'', ''lighting'', ''style''] ''light''
                = map ((!) [''camera'', ''details'', ''lighting'', ''style'']) idxs
          \<and> distinct idxs
          \<and> length idxs = max 1 (nat \<lfloor>of_nat (length [''camera'', ''details'', ''lighting'', ''style''])
                                        * intensity_rate ''light''\<rfloor>))"
proof -
  have h: "[''camera'', ''details'', ''lighting'', ''style''] \<noteq> []" by simp
  have m: "''light'' \<in> {''minimal'', ''light'', ''moderate''}" by simp
  show ?thesis
    using h m intensity_thinning [OF h, of 42 7 "''light''"] by blast
qed

end
